theory Spec2Isabelle
  imports Complex_Main "HOL-Library.Char_ord" "HOL-Library.List_Lexorder"
begin

section \<open>LCM2ROSControl: the per-cycle control law of the Valkyrie translator\<close>

text \<open>
  The development embeds \<^verbatim>\<open>src/LCM2ROSControl.cpp\<close>. A C++ \<^verbatim>\<open>double\<close> is an exact
  real number here: rounding, infinities and NaN are outside the model, and
  \<^verbatim>\<open>std::max\<close>, \<^verbatim>\<open>std::min\<close>, \<^verbatim>\<open>fmax\<close>, \<^verbatim>\<open>fmin\<close> and \<^verbatim>\<open>fabs\<close> are
  \<open>max\<close>, \<open>min\<close> and \<open>abs\<close> on the reals.
\<close>

type_synonym double = real

subsection \<open>Data\<close>

text \<open>The class \<^verbatim>\<open>joint_command\<close>: the eleven fields the source reads and writes.\<close>

record joint_command =
  position :: double
  velocity :: double
  effort :: double
  k_q_p :: double
  k_q_i :: double
  k_qd_p :: double
  k_f_p :: double
  ff_qd :: double
  ff_qd_d :: double
  ff_f_d :: double
  ff_const :: double

text \<open>The three fields of \<^verbatim>\<open>joint_limits_interface::JointLimits\<close> the source uses.\<close>

record JointLimits =
  min_position :: double
  max_position :: double
  max_effort :: double

text \<open>
  A \<^verbatim>\<open>hardware_interface::JointHandle\<close> gives access to the three measured quantities
  of a joint and to its command slot. The handle refers to hardware memory; the record
  holds what that memory contains. \<^verbatim>\<open>setCommand\<close> stores into the command slot and
  leaves the three measurements as they are.
\<close>

record JointHandle =
  hw_position :: double
  hw_velocity :: double
  hw_effort :: double
  hw_command :: double

definition getPosition :: "JointHandle \<Rightarrow> double" where
  "getPosition h = hw_position h"

definition getVelocity :: "JointHandle \<Rightarrow> double" where
  "getVelocity h = hw_velocity h"

definition getEffort :: "JointHandle \<Rightarrow> double" where
  "getEffort h = hw_effort h"

definition setCommand :: "JointHandle \<Rightarrow> double \<Rightarrow> JointHandle" where
  "setCommand h c = h\<lparr>hw_command := c\<rparr>"

text \<open>
  The header \<^verbatim>\<open>LCM2ROSControl.hpp\<close> is not among the sources. What the source takes from
  it and from the headers of ros\_control is a parameter of the model: the five named
  constants, the value of a default-constructed \<^verbatim>\<open>JointLimits\<close> and the value of a
  default-constructed \<^verbatim>\<open>joint_command\<close>.
\<close>

record header =
  DEFAULT_MIN_POSITION :: double
  DEFAULT_MAX_POSITION :: double
  DEFAULT_MAX_EFFORT :: double
  FORCE_CONTROL_ALLOWABLE_POSITION_ERR_BOUND :: double
  FORCE_CONTROL_MAX_CHANGE :: double
  new_JointLimits :: JointLimits
  new_joint_command :: joint_command

subsection \<open>The stages of the effort law\<close>

text \<open>Line 20: \<^verbatim>\<open>clamp(x, lower, upper)\<close>.\<close>

definition clamp :: "double \<Rightarrow> double \<Rightarrow> double \<Rightarrow> double" where
  "clamp x lower upper = max lower (min upper x)"

text \<open>Lines 308 to 316: the effort before any clamp.\<close>

definition command_effort_raw ::
  "joint_command \<Rightarrow> double \<Rightarrow> double \<Rightarrow> double \<Rightarrow> double \<Rightarrow> double" where
  "command_effort_raw command q qd f dt =
     k_q_p command * (position command - q) +
     k_q_i command * (position command - q) * dt +
     k_qd_p command * (velocity command - qd) +
     k_f_p command * (effort command - f) +
     ff_qd command * qd +
     ff_qd_d command * velocity command +
     ff_f_d command * effort command +
     ff_const command"

text \<open>Line 334: how far the joint is beyond its position limits.\<close>

definition err_beyond_bound :: "JointLimits \<Rightarrow> double \<Rightarrow> double" where
  "err_beyond_bound limits q = max (q - max_position limits) (min_position limits - q)"

text \<open>Lines 335 to 342: the ramp, on the error of line 334.\<close>

definition ramp_by_err :: "double \<Rightarrow> double \<Rightarrow> double \<Rightarrow> double" where
  "ramp_by_err bound err command_effort =
     (if err \<ge> bound then 0
      else if err \<ge> 0 then command_effort * ((bound - err) / bound)
      else command_effort)"

definition ramp :: "double \<Rightarrow> JointLimits \<Rightarrow> double \<Rightarrow> double \<Rightarrow> double" where
  "ramp bound limits q command_effort =
     ramp_by_err bound (err_beyond_bound limits q) command_effort"

text \<open>Lines 348 to 351: the bound on the change against the measured effort.\<close>

definition rate_clamp :: "double \<Rightarrow> double \<Rightarrow> double \<Rightarrow> double" where
  "rate_clamp max_change f command_effort =
     (if command_effort > f then min (f + max_change) command_effort
      else max (f - max_change) command_effort)"

text \<open>Lines 356 to 361: the value handed to \<^verbatim>\<open>setCommand\<close> when commands are applied.\<close>

definition applied_effort :: "double \<Rightarrow> double" where
  "applied_effort command_effort =
     (if \<bar>command_effort\<bar> < 1000 then command_effort else 0)"

text \<open>Lines 319 to 328: the limits of an effort-controlled joint.\<close>

definition default_limits :: "header \<Rightarrow> JointLimits" where
  "default_limits hdr =
     (new_JointLimits hdr)\<lparr>min_position := DEFAULT_MIN_POSITION hdr,
        max_position := DEFAULT_MAX_POSITION hdr,
        max_effort := DEFAULT_MAX_EFFORT hdr\<rparr>"

definition effort_limits :: "header \<Rightarrow> (string \<rightharpoonup> JointLimits) \<Rightarrow> string \<Rightarrow> JointLimits" where
  "effort_limits hdr joint_limits name =
     (case joint_limits name of None \<Rightarrow> default_limits hdr | Some limits \<Rightarrow> limits)"

text \<open>Lines 308 to 351 in one: the value of \<^verbatim>\<open>command_effort\<close> at line 352.\<close>

definition command_effort_final ::
  "header \<Rightarrow> JointLimits \<Rightarrow> joint_command \<Rightarrow> double \<Rightarrow> double \<Rightarrow> double \<Rightarrow> double \<Rightarrow> double" where
  "command_effort_final hdr limits command q qd f dt =
     rate_clamp (FORCE_CONTROL_MAX_CHANGE hdr) f
       (ramp (FORCE_CONTROL_ALLOWABLE_POSITION_ERR_BOUND hdr) limits q
         (clamp (command_effort_raw command q qd f dt) (- max_effort limits) (max_effort limits)))"

subsection \<open>Messages\<close>

text \<open>
  The LCM types \<^verbatim>\<open>bot_core::joint_state_t\<close>, \<^verbatim>\<open>bot_core::joint_angles_t\<close> and
  \<^verbatim>\<open>bot_core::robot_state_t\<close> share the fields \<^verbatim>\<open>utime\<close>, \<^verbatim>\<open>num_joints\<close>,
  \<^verbatim>\<open>joint_name\<close> and \<^verbatim>\<open>joint_position\<close>; the records extend one another so that
  each field keeps its name. Of \<^verbatim>\<open>robot_state_t\<close> only the fields the source assigns
  are kept; pose and twist are tuples (translation \<open>(x, y, z)\<close>, rotation
  \<open>(w, x, y, z)\<close>).
\<close>

record lcm_joints =
  utime :: int
  num_joints :: int
  joint_name :: "string list"
  joint_position :: "double list"

record joint_angles_t = lcm_joints +
  robot_name :: string

record joint_state_t = lcm_joints +
  joint_velocity :: "double list"
  joint_effort :: "double list"

record robot_state_t = joint_state_t +
  pose_translation :: "double \<times> double \<times> double"
  pose_rotation :: "double \<times> double \<times> double \<times> double"
  twist_linear_velocity :: "double \<times> double \<times> double"
  twist_angular_velocity :: "double \<times> double \<times> double"

datatype lcm_message =
    JointState joint_state_t
  | JointAngles joint_angles_t
  | RobotState robot_state_t

text \<open>
  The inbound \<^verbatim>\<open>bot_core::atlas_command_t\<close>, read through \<^verbatim>\<open>msg->\<close>: a count and
  parallel arrays. The fields carry the prefix \<open>msg_\<close> because \<^verbatim>\<open>position\<close>,
  \<^verbatim>\<open>k_q_p\<close> and the others name the fields of \<^verbatim>\<open>joint_command\<close> already.
\<close>

record atlas_command_t =
  msg_num_joints :: int
  msg_joint_names :: "string list"
  msg_position :: "double list"
  msg_velocity :: "double list"
  msg_effort :: "double list"
  msg_k_q_p :: "double list"
  msg_k_q_i :: "double list"
  msg_k_qd_p :: "double list"
  msg_k_f_p :: "double list"
  msg_ff_qd :: "double list"
  msg_ff_qd_d :: "double list"
  msg_ff_f_d :: "double list"
  msg_ff_const :: "double list"

text \<open>The \<^verbatim>\<open>ROS_INFO\<close> lines of \<^verbatim>\<open>update\<close>, with the values they print.\<close>

datatype log_event =
    ForceNulled string double double
  | ForceScaled string double double
  | ForceOutOfRange string double double
  | DangerousCommand string double
  | PositionOutOfLimits string double

subsection \<open>The controller object\<close>

datatype controller_state = CONSTRUCTED | INITIALIZED

text \<open>
  The members of \<^verbatim>\<open>LCM2ROSControl\<close> that \<^verbatim>\<open>initRequest\<close>, \<^verbatim>\<open>update\<close> and the command
  handler use. \<^verbatim>\<open>latest_commands\<close> and \<^verbatim>\<open>joint_limits\<close> are only searched and indexed
  by key, so they are maps. The two handle containers are iterated from \<^verbatim>\<open>begin()\<close> to
  \<^verbatim>\<open>end()\<close>; they are the lists of their entries in iteration order. \<open>run_state\<close> is
  the inherited member \<^verbatim>\<open>state_\<close>.
\<close>

record LCM2ROSControl =
  run_state :: controller_state
  publishCoreRobotState :: bool
  publish_est_robot_state :: bool
  applyCommands :: bool
  joint_limits :: "string \<rightharpoonup> JointLimits"
  latest_commands :: "string \<rightharpoonup> joint_command"
  effortJointHandles :: "(string \<times> JointHandle) list"
  positionJointHandles :: "(string \<times> JointHandle) list"
  last_update :: double

subsection \<open>The command handler\<close>

text \<open>
  Lines 448 to 472. The loop counter is an \<^verbatim>\<open>unsigned int\<close> compared with the
  \<^verbatim>\<open>int32_t\<close> count, which the comparison converts to 32 bits unsigned. Reading a
  vector beyond its size is undefined in C++; the model returns \<open>OutOfRange\<close> there.
\<close>

datatype fault = OutOfRange

definition all_in_range :: "atlas_command_t \<Rightarrow> nat \<Rightarrow> bool" where
  "all_in_range msg i \<longleftrightarrow>
     i < length (msg_position msg) \<and> i < length (msg_velocity msg) \<and>
     i < length (msg_effort msg) \<and> i < length (msg_k_q_p msg) \<and>
     i < length (msg_k_q_i msg) \<and> i < length (msg_k_qd_p msg) \<and>
     i < length (msg_k_f_p msg) \<and> i < length (msg_ff_qd msg) \<and>
     i < length (msg_ff_qd_d msg) \<and> i < length (msg_ff_f_d msg) \<and>
     i < length (msg_ff_const msg)"

definition command_at :: "atlas_command_t \<Rightarrow> nat \<Rightarrow> joint_command" where
  "command_at msg i =
     \<lparr>position = msg_position msg ! i,
      velocity = msg_velocity msg ! i,
      effort = msg_effort msg ! i,
      k_q_p = msg_k_q_p msg ! i,
      k_q_i = msg_k_q_i msg ! i,
      k_qd_p = msg_k_qd_p msg ! i,
      k_f_p = msg_k_f_p msg ! i,
      ff_qd = msg_ff_qd msg ! i,
      ff_qd_d = msg_ff_qd_d msg ! i,
      ff_f_d = msg_ff_f_d msg ! i,
      ff_const = msg_ff_const msg ! i\<rparr>"

definition handler_step ::
  "atlas_command_t \<Rightarrow> nat \<Rightarrow> (string \<rightharpoonup> joint_command) \<Rightarrow> fault + (string \<rightharpoonup> joint_command)" where
  "handler_step msg i cmds =
     (if i < length (msg_joint_names msg) then
        (case cmds (msg_joint_names msg ! i) of
           None \<Rightarrow> Inr cmds
         | Some old \<Rightarrow>
             if all_in_range msg i
             then Inr (cmds(msg_joint_names msg ! i \<mapsto> command_at msg i))
             else Inl OutOfRange)
      else Inl OutOfRange)"

fun handler_loop ::
  "atlas_command_t \<Rightarrow> nat list \<Rightarrow> (string \<rightharpoonup> joint_command) \<Rightarrow> fault + (string \<rightharpoonup> joint_command)" where
  "handler_loop msg [] cmds = Inr cmds"
| "handler_loop msg (i # rest) cmds =
     (case handler_step msg i cmds of
        Inl e \<Rightarrow> Inl e
      | Inr cmds' \<Rightarrow> handler_loop msg rest cmds')"

definition loop_bound :: "atlas_command_t \<Rightarrow> nat" where
  "loop_bound msg = nat (msg_num_joints msg mod 2 ^ 32)"

definition jointCommandHandler ::
  "atlas_command_t \<Rightarrow> (string \<rightharpoonup> joint_command) \<Rightarrow> fault + (string \<rightharpoonup> joint_command)" where
  "jointCommandHandler msg cmds = handler_loop msg [0..<loop_bound msg] cmds"

text \<open>
  What the LCM decoder delivers: a count that is not negative and arrays of that many
  elements each.
\<close>

definition decoded :: "atlas_command_t \<Rightarrow> bool" where
  "decoded msg \<longleftrightarrow>
     0 \<le> msg_num_joints msg \<and> msg_num_joints msg < 2 ^ 31 \<and>
     length (msg_joint_names msg) = nat (msg_num_joints msg) \<and>
     length (msg_position msg) = nat (msg_num_joints msg) \<and>
     length (msg_velocity msg) = nat (msg_num_joints msg) \<and>
     length (msg_effort msg) = nat (msg_num_joints msg) \<and>
     length (msg_k_q_p msg) = nat (msg_num_joints msg) \<and>
     length (msg_k_q_i msg) = nat (msg_num_joints msg) \<and>
     length (msg_k_qd_p msg) = nat (msg_num_joints msg) \<and>
     length (msg_k_f_p msg) = nat (msg_num_joints msg) \<and>
     length (msg_ff_qd msg) = nat (msg_num_joints msg) \<and>
     length (msg_ff_qd_d msg) = nat (msg_num_joints msg) \<and>
     length (msg_ff_f_d msg) = nat (msg_num_joints msg) \<and>
     length (msg_ff_const msg) = nat (msg_num_joints msg)"

subsection \<open>The control cycle\<close>

text \<open>
  The local variables of \<^verbatim>\<open>update\<close> that the two loops change, together with the
  command table (which \<^verbatim>\<open>latest_commands[...]\<close> may extend), the log and the sequence
  of \<^verbatim>\<open>setCommand\<close> calls.
\<close>

record cycle_locals =
  lcm_pose_msg :: joint_state_t
  lcm_commanded_msg :: joint_state_t
  lcm_torque_msg :: joint_angles_t
  lcm_state_msg :: robot_state_t
  commands :: "string \<rightharpoonup> joint_command"
  ros_log :: "log_event list"
  hw_writes :: "(string \<times> double) list"

text \<open>
  \<^verbatim>\<open>latest_commands[key]\<close>: the entry under the key, which is created
  default-constructed when the key has none.
\<close>

definition map_index ::
  "joint_command \<Rightarrow> (string \<rightharpoonup> joint_command) \<Rightarrow> string
     \<Rightarrow> joint_command \<times> (string \<rightharpoonup> joint_command)" where
  "map_index fresh cmds key =
     (case cmds key of Some c \<Rightarrow> (c, cmds) | None \<Rightarrow> (fresh, cmds(key \<mapsto> fresh)))"

text \<open>Lines 300 to 385: the body of the loop over the effort-controlled joints.\<close>

definition effort_joint ::
  "header \<Rightarrow> bool \<Rightarrow> double \<Rightarrow> (string \<rightharpoonup> JointLimits) \<Rightarrow> nat \<Rightarrow> string \<times> JointHandle
     \<Rightarrow> cycle_locals \<Rightarrow> JointHandle \<times> cycle_locals" where
  "effort_joint hdr applyCmds dt limits_map effortJointIndex iter L =
     (let q = getPosition (snd iter);
          qd = getVelocity (snd iter);
          f = getEffort (snd iter);
          command = fst (map_index (new_joint_command hdr) (commands L) (fst iter));
          limits = effort_limits hdr limits_map (fst iter);
          clamped = clamp (command_effort_raw command q qd f dt)
                      (- max_effort limits) (max_effort limits);
          err = err_beyond_bound limits q;
          ramped = ramp_by_err (FORCE_CONTROL_ALLOWABLE_POSITION_ERR_BOUND hdr) err clamped;
          command_effort = rate_clamp (FORCE_CONTROL_MAX_CHANGE hdr) f ramped;
          h' = (if applyCmds then setCommand (snd iter) (applied_effort command_effort)
                else snd iter)
      in (h',
          L\<lparr>lcm_pose_msg := (lcm_pose_msg L)
               \<lparr>joint_name := (joint_name (lcm_pose_msg L))[effortJointIndex := fst iter],
                joint_position := (joint_position (lcm_pose_msg L))[effortJointIndex := q],
                joint_velocity := (joint_velocity (lcm_pose_msg L))[effortJointIndex := qd],
                joint_effort := (joint_effort (lcm_pose_msg L))[effortJointIndex := getEffort h']\<rparr>,
            lcm_state_msg := (lcm_state_msg L)
               \<lparr>joint_name := (joint_name (lcm_state_msg L))[effortJointIndex := fst iter],
                joint_position := (joint_position (lcm_state_msg L))[effortJointIndex := q],
                joint_velocity := (joint_velocity (lcm_state_msg L))[effortJointIndex := qd],
                joint_effort := (joint_effort (lcm_state_msg L))[effortJointIndex := getEffort h']\<rparr>,
            lcm_commanded_msg := (lcm_commanded_msg L)
               \<lparr>joint_name := (joint_name (lcm_commanded_msg L))[effortJointIndex := fst iter],
                joint_position :=
                  (joint_position (lcm_commanded_msg L))[effortJointIndex := position command],
                joint_velocity :=
                  (joint_velocity (lcm_commanded_msg L))[effortJointIndex := velocity command],
                joint_effort :=
                  (joint_effort (lcm_commanded_msg L))[effortJointIndex := effort command]\<rparr>,
            lcm_torque_msg := (lcm_torque_msg L)
               \<lparr>joint_name := (joint_name (lcm_torque_msg L))[effortJointIndex := fst iter],
                joint_position :=
                  (joint_position (lcm_torque_msg L))[effortJointIndex := command_effort]\<rparr>,
            commands := snd (map_index (new_joint_command hdr) (commands L) (fst iter)),
            ros_log := ros_log L
               @ (if err \<ge> FORCE_CONTROL_ALLOWABLE_POSITION_ERR_BOUND hdr
                  then [ForceNulled (fst iter) clamped q]
                  else if err \<ge> 0 then [ForceScaled (fst iter) clamped q] else [])
               @ (if \<bar>ramped - f\<bar> \<ge> FORCE_CONTROL_MAX_CHANGE hdr
                  then [ForceOutOfRange (fst iter) ramped f] else [])
               @ (if applyCmds \<and> \<not> \<bar>command_effort\<bar> < 1000
                  then [DangerousCommand (fst iter) command_effort] else []),
            hw_writes := hw_writes L
               @ (if applyCmds then [(fst iter, applied_effort command_effort)] else [])\<rparr>))"

fun effort_loop ::
  "header \<Rightarrow> bool \<Rightarrow> double \<Rightarrow> (string \<rightharpoonup> JointLimits) \<Rightarrow> (string \<times> JointHandle) list \<Rightarrow> nat
     \<Rightarrow> cycle_locals \<Rightarrow> (string \<times> JointHandle) list \<times> nat \<times> cycle_locals" where
  "effort_loop hdr applyCmds dt limits_map [] effortJointIndex L = ([], effortJointIndex, L)"
| "effort_loop hdr applyCmds dt limits_map (iter # rest) effortJointIndex L =
     (case effort_joint hdr applyCmds dt limits_map effortJointIndex iter L of
        (h', L') \<Rightarrow>
          (case effort_loop hdr applyCmds dt limits_map rest (Suc effortJointIndex) L' of
             (hs, i, L'') \<Rightarrow> ((fst iter, h') # hs, i, L'')))"

text \<open>
  Lines 397 to 404: the limits of a position-controlled joint. The variable is
  default-constructed, and only the branch for a joint without configured limits
  assigns to it.
\<close>

definition position_limits :: "header \<Rightarrow> (string \<rightharpoonup> JointLimits) \<Rightarrow> string \<Rightarrow> JointLimits" where
  "position_limits hdr limits_map name =
     (case limits_map name of
        None \<Rightarrow> default_limits hdr
      | Some found \<Rightarrow> new_JointLimits hdr)"

text \<open>Lines 394 to 408: the position handed to \<^verbatim>\<open>setCommand\<close>.\<close>

definition position_to_go :: "JointLimits \<Rightarrow> joint_command \<Rightarrow> double" where
  "position_to_go limits command =
     clamp (position command) (min_position limits) (max_position limits)"

text \<open>Lines 389 to 431: the body of the loop over the position-controlled joints.\<close>

definition position_joint ::
  "header \<Rightarrow> bool \<Rightarrow> (string \<rightharpoonup> JointLimits) \<Rightarrow> nat \<Rightarrow> string \<times> JointHandle
     \<Rightarrow> cycle_locals \<Rightarrow> JointHandle \<times> cycle_locals" where
  "position_joint hdr applyCmds limits_map positionJointIndex iter L =
     (let q = getPosition (snd iter);
          qd = getVelocity (snd iter);
          command = fst (map_index (new_joint_command hdr) (commands L) (fst iter));
          limits = position_limits hdr limits_map (fst iter);
          h' = (if applyCmds then setCommand (snd iter) (position_to_go limits command)
                else snd iter)
      in (h',
          L\<lparr>lcm_pose_msg := (lcm_pose_msg L)
               \<lparr>joint_name := (joint_name (lcm_pose_msg L))[positionJointIndex := fst iter],
                joint_position := (joint_position (lcm_pose_msg L))[positionJointIndex := q],
                joint_velocity := (joint_velocity (lcm_pose_msg L))[positionJointIndex := qd]\<rparr>,
            lcm_state_msg := (lcm_state_msg L)
               \<lparr>joint_name := (joint_name (lcm_state_msg L))[positionJointIndex := fst iter],
                joint_position := (joint_position (lcm_state_msg L))[positionJointIndex := q],
                joint_velocity := (joint_velocity (lcm_state_msg L))[positionJointIndex := qd]\<rparr>,
            lcm_commanded_msg := (lcm_commanded_msg L)
               \<lparr>joint_name := (joint_name (lcm_commanded_msg L))[positionJointIndex := fst iter],
                joint_position :=
                  (joint_position (lcm_commanded_msg L))[positionJointIndex := position command],
                joint_velocity :=
                  (joint_velocity (lcm_commanded_msg L))[positionJointIndex := velocity command],
                joint_effort :=
                  (joint_effort (lcm_commanded_msg L))[positionJointIndex := effort command]\<rparr>,
            commands := snd (map_index (new_joint_command hdr) (commands L) (fst iter)),
            ros_log := ros_log L
               @ (if position command > max_position limits
                     \<or> position command < min_position limits
                  then [PositionOutOfLimits (fst iter) (position command)] else []),
            hw_writes := hw_writes L
               @ (if applyCmds then [(fst iter, position_to_go limits command)] else [])\<rparr>))"

fun position_loop ::
  "header \<Rightarrow> bool \<Rightarrow> (string \<rightharpoonup> JointLimits) \<Rightarrow> (string \<times> JointHandle) list \<Rightarrow> nat
     \<Rightarrow> cycle_locals \<Rightarrow> (string \<times> JointHandle) list \<times> nat \<times> cycle_locals" where
  "position_loop hdr applyCmds limits_map [] positionJointIndex L = ([], positionJointIndex, L)"
| "position_loop hdr applyCmds limits_map (iter # rest) positionJointIndex L =
     (case position_joint hdr applyCmds limits_map positionJointIndex iter L of
        (h', L') \<Rightarrow>
          (case position_loop hdr applyCmds limits_map rest (Suc positionJointIndex) L' of
             (hs, i, L'') \<Rightarrow> ((fst iter, h') # hs, i, L'')))"

text \<open>
  Line 239: the conversion of a \<^verbatim>\<open>double\<close> to \<^verbatim>\<open>int64_t\<close> drops the fraction (the
  values of \<^verbatim>\<open>ros::Time\<close> stay far inside 64 bits).
\<close>

definition to_int64 :: "double \<Rightarrow> int" where
  "to_int64 x = (if 0 \<le> x then \<lfloor>x\<rfloor> else \<lceil>x\<rceil>)"

text \<open>Lines 246 to 294: the four messages before the loops.\<close>

definition init_locals :: "LCM2ROSControl \<Rightarrow> double \<Rightarrow> cycle_locals" where
  "init_locals s time =
     (let utime = to_int64 (time * 1000000);
          numberOfJointInterfaces =
            length (effortJointHandles s) + length (positionJointHandles s)
      in \<lparr>lcm_pose_msg =
            \<lparr>utime = utime, num_joints = int numberOfJointInterfaces,
             joint_name = replicate numberOfJointInterfaces [],
             joint_position = replicate numberOfJointInterfaces 0,
             joint_velocity = replicate numberOfJointInterfaces 0,
             joint_effort = replicate numberOfJointInterfaces 0\<rparr>,
          lcm_commanded_msg =
            \<lparr>utime = utime, num_joints = int numberOfJointInterfaces,
             joint_name = replicate numberOfJointInterfaces [],
             joint_position = replicate numberOfJointInterfaces 0,
             joint_velocity = replicate numberOfJointInterfaces 0,
             joint_effort = replicate numberOfJointInterfaces 0\<rparr>,
          lcm_torque_msg =
            \<lparr>utime = utime, num_joints = int (length (effortJointHandles s)),
             joint_name = replicate (length (effortJointHandles s)) [],
             joint_position = replicate (length (effortJointHandles s)) 0,
             robot_name = ''val!''\<rparr>,
          lcm_state_msg =
            \<lparr>utime = utime, num_joints = int numberOfJointInterfaces,
             joint_name = replicate numberOfJointInterfaces [],
             joint_position = replicate numberOfJointInterfaces 0,
             joint_velocity = replicate numberOfJointInterfaces 0,
             joint_effort = replicate numberOfJointInterfaces 0,
             pose_translation = (0, 0, 0),
             pose_rotation = (1, 0, 0, 0),
             twist_linear_velocity = (0, 0, 0),
             twist_angular_velocity = (0, 0, 0)\<rparr>,
          commands = latest_commands s,
          ros_log = [],
          hw_writes = []\<rparr>)"

text \<open>
  What a call of \<^verbatim>\<open>update\<close> leaves behind: the object, the locals at the end of the
  function, and the messages handed to \<^verbatim>\<open>lcm_->publish\<close>, with their channels.
\<close>

record cycle_result =
  self :: LCM2ROSControl
  locals :: cycle_locals
  published :: "(string \<times> lcm_message) list"

text \<open>
  Lines 237 to 433: \<^verbatim>\<open>update\<close> after the two polls of lines 234 and 235. The function
  ends after the second loop; it contains no call of \<^verbatim>\<open>publish\<close>.
\<close>

definition control_cycle :: "header \<Rightarrow> LCM2ROSControl \<Rightarrow> double \<Rightarrow> cycle_result" where
  "control_cycle hdr s time =
     (let dt = time - last_update s in
      case effort_loop hdr (applyCommands s) dt (joint_limits s) (effortJointHandles s) 0
             (init_locals s time) of
        (effort', effortJointIndex, L) \<Rightarrow>
          (case position_loop hdr (applyCommands s) (joint_limits s) (positionJointHandles s)
                  effortJointIndex L of
             (position', positionJointIndex, L') \<Rightarrow>
               \<lparr>self = s\<lparr>last_update := time,
                         latest_commands := commands L',
                         effortJointHandles := effort',
                         positionJointHandles := position'\<rparr>,
                locals = L',
                published = []\<rparr>))"

text \<open>
  Lines 232 to 433. \<^verbatim>\<open>handler_->update()\<close> polls the subscription without waiting and
  dispatches at most one pending \<^verbatim>\<open>ROBOT_COMMAND\<close> message to the handler; the
  controller's own \<^verbatim>\<open>lcm_\<close> has no subscription.
\<close>

definition update ::
  "header \<Rightarrow> LCM2ROSControl \<Rightarrow> double \<Rightarrow> atlas_command_t option \<Rightarrow> fault + cycle_result" where
  "update hdr s time pending =
     (case pending of
        None \<Rightarrow> Inr (control_cycle hdr s time)
      | Some msg \<Rightarrow>
          (case jointCommandHandler msg (latest_commands s) of
             Inl e \<Rightarrow> Inl e
           | Inr cmds \<Rightarrow> Inr (control_cycle hdr (s\<lparr>latest_commands := cmds\<rparr>) time)))"

subsection \<open>Registration\<close>

text \<open>
  The handle containers are declared in the header. The source assigns through
  \<^verbatim>\<open>container[key]\<close>, searches with \<^verbatim>\<open>find\<close> and walks from \<^verbatim>\<open>begin()\<close> to \<^verbatim>\<open>end()\<close>
  reading \<^verbatim>\<open>iter->first\<close> and \<^verbatim>\<open>iter->second\<close>: the interface of \<^verbatim>\<open>std::map\<close>, which
  keeps one entry for each key and iterates in ascending order of the keys.
  \<^verbatim>\<open>std::string\<close> compares byte by byte, a proper prefix first, which is the order of
  \<open>string\<close> here. \<open>map_assign\<close> is \<^verbatim>\<open>container[key] = v\<close> on the list of entries in
  iteration order.
\<close>

fun map_assign :: "string \<Rightarrow> 'v \<Rightarrow> (string \<times> 'v) list \<Rightarrow> (string \<times> 'v) list" where
  "map_assign key v [] = [(key, v)]"
| "map_assign key v (entry # rest) =
     (if key < fst entry then (key, v) # entry # rest
      else if key = fst entry then (key, v) # rest
      else entry # map_assign key v rest)"

text \<open>Lines 106 to 117 and 145 to 156: the entry a registered joint starts with.\<close>

definition zero_command :: joint_command where
  "zero_command =
     \<lparr>position = 0, velocity = 0, effort = 0, k_q_p = 0, k_q_i = 0, k_qd_p = 0,
      k_f_p = 0, ff_qd = 0, ff_qd_d = 0, ff_f_d = 0, ff_const = 0\<rparr>"

text \<open>
  A joint interface of the robot hardware: the names it lists and the handle it gives
  for a name (\<open>None\<close> where \<^verbatim>\<open>getHandle\<close> throws, which the source catches and logs).
  In ros\_control \<^verbatim>\<open>getNames\<close> walks the resource manager's own \<^verbatim>\<open>std::map\<close>, so the
  names it lists are ascending and distinct; the properties of registration order below
  assume that of the list.
\<close>

record JointInterface =
  getNames :: "string list"
  getHandle :: "string \<rightharpoonup> JointHandle"

record RobotHW =
  EffortJointInterface :: "JointInterface option"
  PositionJointInterface :: "JointInterface option"
  ImuSensorInterface :: bool
  ForceTorqueSensorInterface :: bool

text \<open>The parameter server, as far as \<^verbatim>\<open>initRequest\<close> asks it.\<close>

record NodeHandle =
  param_publish_core_robot_state :: "bool option"
  param_publish_est_robot_state :: "bool option"
  param_apply_commands :: "bool option"
  param_joints :: "string list option"
  getJointLimits :: "string \<rightharpoonup> JointLimits"

text \<open>Lines 76 to 85; \<^verbatim>\<open>std::map::insert\<close> keeps an entry that is already there.\<close>

fun load_limits ::
  "(string \<rightharpoonup> JointLimits) \<Rightarrow> string list \<Rightarrow> (string \<rightharpoonup> JointLimits) \<Rightarrow> (string \<rightharpoonup> JointLimits)" where
  "load_limits get_limits [] limits_map = limits_map"
| "load_limits get_limits (name # rest) limits_map =
     (case get_limits name of
        None \<Rightarrow> load_limits get_limits rest limits_map
      | Some limits \<Rightarrow>
          load_limits get_limits rest
            (if limits_map name = None then limits_map(name \<mapsto> limits)
             else limits_map))"

text \<open>Lines 99 to 121: the loop over the names of the effort interface.\<close>

fun register_effort ::
  "bool \<Rightarrow> string list \<Rightarrow> JointInterface \<Rightarrow> string list \<Rightarrow> LCM2ROSControl \<Rightarrow> LCM2ROSControl" where
  "register_effort use_joint_selection joint_names effort_hw [] s = s"
| "register_effort use_joint_selection joint_names effort_hw (name # rest) s =
     (if use_joint_selection \<and> name \<notin> set joint_names
      then register_effort use_joint_selection joint_names effort_hw rest s
      else (case getHandle effort_hw name of
              None \<Rightarrow> register_effort use_joint_selection joint_names effort_hw rest s
            | Some h \<Rightarrow>
                register_effort use_joint_selection joint_names effort_hw rest
                  (s\<lparr>effortJointHandles := map_assign name h (effortJointHandles s),
                     latest_commands := (latest_commands s)(name \<mapsto> zero_command)\<rparr>)))"

text \<open>Lines 138 to 160: the loop over the names of the position interface.\<close>

fun register_position ::
  "bool \<Rightarrow> string list \<Rightarrow> JointInterface \<Rightarrow> string list \<Rightarrow> LCM2ROSControl \<Rightarrow> LCM2ROSControl" where
  "register_position use_joint_selection joint_names position_hw [] s = s"
| "register_position use_joint_selection joint_names position_hw (name # rest) s =
     (if use_joint_selection \<and> name \<notin> set joint_names
      then register_position use_joint_selection joint_names position_hw rest s
      else (case getHandle position_hw name of
              None \<Rightarrow> register_position use_joint_selection joint_names position_hw rest s
            | Some h \<Rightarrow>
                register_position use_joint_selection joint_names position_hw rest
                  (s\<lparr>positionJointHandles := map_assign name h (positionJointHandles s),
                     latest_commands := (latest_commands s)(name \<mapsto> zero_command)\<rparr>)))"

text \<open>
  Lines 32 to 225, without the claims bookkeeping and without the IMU and force/torque
  handles (\<^verbatim>\<open>update\<close> does not read them). The first component is the value returned.
\<close>

definition initRequest ::
  "LCM2ROSControl \<Rightarrow> RobotHW \<Rightarrow> NodeHandle \<Rightarrow> bool \<Rightarrow> bool \<times> LCM2ROSControl" where
  "initRequest s robot_hw controller_nh lcm_good =
     (if run_state s \<noteq> CONSTRUCTED then (False, s)
      else
        let s1 = s\<lparr>publishCoreRobotState :=
                     (case param_publish_core_robot_state controller_nh of
                        None \<Rightarrow> True | Some b \<Rightarrow> b),
                   publish_est_robot_state :=
                     (case param_publish_est_robot_state controller_nh of
                        None \<Rightarrow> False | Some b \<Rightarrow> b),
                   applyCommands :=
                     (case param_apply_commands controller_nh of
                        None \<Rightarrow> False | Some b \<Rightarrow> b)\<rparr>
        in if \<not> lcm_good then (False, s1)
           else
             let joint_names = (case param_joints controller_nh of None \<Rightarrow> [] | Some js \<Rightarrow> js);
                 use_joint_selection = (length joint_names \<noteq> 0);
                 s2 = s1\<lparr>joint_limits :=
                           load_limits (getJointLimits controller_nh) joint_names
                             (joint_limits s1)\<rparr>
             in (case EffortJointInterface robot_hw of
                   None \<Rightarrow> (False, s2)
                 | Some effort_hw \<Rightarrow>
                     let s3 = register_effort use_joint_selection joint_names effort_hw
                                (getNames effort_hw) s2
                     in (case PositionJointInterface robot_hw of
                           None \<Rightarrow> (False, s3)
                         | Some position_hw \<Rightarrow>
                             let s4 = register_position use_joint_selection joint_names
                                        position_hw (getNames position_hw) s3
                             in if \<not> ImuSensorInterface robot_hw then (False, s4)
                                else if \<not> ForceTorqueSensorInterface robot_hw then (False, s4)
                                else (True, s4\<lparr>run_state := INITIALIZED\<rparr>))))"

text \<open>Lines 227 to 230.\<close>

definition starting :: "LCM2ROSControl \<Rightarrow> double \<Rightarrow> LCM2ROSControl" where
  "starting s time = s\<lparr>last_update := time\<rparr>"

text \<open>
  A controller as the constructor leaves it: the containers are empty. The flags and
  \<^verbatim>\<open>last_update\<close> have no initialiser; \<^verbatim>\<open>initRequest\<close> and \<^verbatim>\<open>starting\<close> overwrite them.
\<close>

definition constructed :: LCM2ROSControl where
  "constructed =
     \<lparr>run_state = CONSTRUCTED, publishCoreRobotState = False, publish_est_robot_state = False,
      applyCommands = False, joint_limits = Map.empty, latest_commands = Map.empty,
      effortJointHandles = [], positionJointHandles = [], last_update = 0\<rparr>"

subsection \<open>Closed forms used in the proofs\<close>

text \<open>
  \<open>fill i vs xs\<close> is what a loop leaves in a vector \<open>xs\<close> that it writes at the
  indices \<open>i\<close>, \<open>i + 1\<close>, ... with the values \<open>vs\<close>.
\<close>

fun fill :: "nat \<Rightarrow> 'a list \<Rightarrow> 'a list \<Rightarrow> 'a list" where
  "fill i [] xs = xs"
| "fill i (v # vs) xs = fill (Suc i) vs (xs[i := v])"

text \<open>Two sets of locals that agree on the four messages and on the command table.\<close>

definition same_messages :: "cycle_locals \<Rightarrow> cycle_locals \<Rightarrow> bool" where
  "same_messages L L' \<longleftrightarrow>
     lcm_pose_msg L = lcm_pose_msg L' \<and> lcm_commanded_msg L = lcm_commanded_msg L' \<and>
     lcm_torque_msg L = lcm_torque_msg L' \<and> lcm_state_msg L = lcm_state_msg L' \<and>
     commands L = commands L'"

text \<open>The value that \<^verbatim>\<open>latest_commands[name]\<close> refers to.\<close>

definition lookup :: "header \<Rightarrow> (string \<rightharpoonup> joint_command) \<Rightarrow> string \<Rightarrow> joint_command" where
  "lookup hdr cmds name = fst (map_index (new_joint_command hdr) cmds name)"

text \<open>
  The value of \<^verbatim>\<open>command_effort\<close> at line 352 for one entry of the effort container,
  and the value of \<^verbatim>\<open>position_to_go\<close> at line 409 for one entry of the position
  container.
\<close>

definition effort_value ::
  "header \<Rightarrow> double \<Rightarrow> (string \<rightharpoonup> JointLimits) \<Rightarrow> (string \<rightharpoonup> joint_command)
     \<Rightarrow> string \<times> JointHandle \<Rightarrow> double" where
  "effort_value hdr dt limits_map cmds iter =
     command_effort_final hdr (effort_limits hdr limits_map (fst iter))
       (lookup hdr cmds (fst iter))
       (getPosition (snd iter)) (getVelocity (snd iter)) (getEffort (snd iter)) dt"

definition position_value ::
  "header \<Rightarrow> (string \<rightharpoonup> JointLimits) \<Rightarrow> (string \<rightharpoonup> joint_command)
     \<Rightarrow> string \<times> JointHandle \<Rightarrow> double" where
  "position_value hdr limits_map cmds iter =
     position_to_go (position_limits hdr limits_map (fst iter)) (lookup hdr cmds (fst iter))"

text \<open>What one step of the handler's loop does to the table when all reads are in range.\<close>

definition apply_at ::
  "atlas_command_t \<Rightarrow> (string \<rightharpoonup> joint_command) \<Rightarrow> nat \<Rightarrow> (string \<rightharpoonup> joint_command)" where
  "apply_at msg cmds i =
     (case cmds (msg_joint_names msg ! i) of
        None \<Rightarrow> cmds
      | Some old \<Rightarrow> cmds(msg_joint_names msg ! i \<mapsto> command_at msg i))"

subsection \<open>Example inputs\<close>

text \<open>
  A header for the examples: the ramp bound of the comment at line 333 (0.1 radians), a
  maximal change of 20, and the constructor of \<^verbatim>\<open>JointLimits\<close> in ros\_control, which
  sets every limit to zero. The three defaults and the fresh command are sample values;
  every joint of the examples has configured limits and a command entry, so no example
  reads them.
\<close>

definition example_header :: header where
  "example_header =
     \<lparr>DEFAULT_MIN_POSITION = - 1000, DEFAULT_MAX_POSITION = 1000, DEFAULT_MAX_EFFORT = 100,
      FORCE_CONTROL_ALLOWABLE_POSITION_ERR_BOUND = 1 / 10, FORCE_CONTROL_MAX_CHANGE = 20,
      new_JointLimits = \<lparr>min_position = 0, max_position = 0, max_effort = 0\<rparr>,
      new_joint_command = zero_command\<rparr>"

text \<open>An effort-controlled joint whose measured effort is far above 1000.\<close>

definition overloaded_joint :: LCM2ROSControl where
  "overloaded_joint =
     \<lparr>run_state = INITIALIZED, publishCoreRobotState = True, publish_est_robot_state = False,
      applyCommands = True,
      joint_limits = [''J1'' \<mapsto> \<lparr>min_position = - 1, max_position = 1, max_effort = 5000\<rparr>],
      latest_commands = [''J1'' \<mapsto> zero_command\<lparr>ff_const := 2000\<rparr>],
      effortJointHandles =
        [(''J1'', \<lparr>hw_position = 0, hw_velocity = 0, hw_effort = 2000, hw_command = 7\<rparr>)],
      positionJointHandles = [], last_update = 0\<rparr>"

text \<open>An effort-controlled joint well inside its limits, asked to move by 0.1.\<close>

definition scenario_joint :: LCM2ROSControl where
  "scenario_joint =
     \<lparr>run_state = INITIALIZED, publishCoreRobotState = True, publish_est_robot_state = False,
      applyCommands = True,
      joint_limits = [''J1'' \<mapsto> \<lparr>min_position = - 1 / 5, max_position = 1, max_effort = 50\<rparr>],
      latest_commands = [''J1'' \<mapsto> zero_command\<lparr>position := 3 / 5, k_q_p := 100\<rparr>],
      effortJointHandles =
        [(''J1'', \<lparr>hw_position = 1 / 2, hw_velocity = 1 / 10, hw_effort = 2, hw_command = 0\<rparr>)],
      positionJointHandles = [], last_update = 0\<rparr>"

text \<open>A position-controlled joint with configured limits from -1 to 1, sent to 0.5.\<close>

definition limited_position_joint :: LCM2ROSControl where
  "limited_position_joint =
     \<lparr>run_state = INITIALIZED, publishCoreRobotState = True, publish_est_robot_state = False,
      applyCommands = True,
      joint_limits = [''P1'' \<mapsto> \<lparr>min_position = - 1, max_position = 1, max_effort = 10\<rparr>],
      latest_commands = [''P1'' \<mapsto> zero_command\<lparr>position := 1 / 2\<rparr>],
      effortJointHandles = [],
      positionJointHandles =
        [(''P1'', \<lparr>hw_position = 1 / 5, hw_velocity = 0, hw_effort = 0, hw_command = 1 / 5\<rparr>)],
      last_update = 0\<rparr>"

text \<open>A command table with two joints, and a batch that names one of them and a stranger.\<close>

definition two_joint_table :: "string \<rightharpoonup> joint_command" where
  "two_joint_table = [''J1'' \<mapsto> zero_command, ''J2'' \<mapsto> zero_command\<lparr>position := 3\<rparr>]"

definition mixed_batch :: atlas_command_t where
  "mixed_batch =
     \<lparr>msg_num_joints = 2, msg_joint_names = [''ghost'', ''J1''],
      msg_position = [9, 1], msg_velocity = [9, 2], msg_effort = [9, 3],
      msg_k_q_p = [9, 4], msg_k_q_i = [9, 5], msg_k_qd_p = [9, 6], msg_k_f_p = [9, 7],
      msg_ff_qd = [9, 8], msg_ff_qd_d = [9, 9], msg_ff_f_d = [9, 10], msg_ff_const = [9, 11]\<rparr>"

subsection \<open>Registration and the order of the snapshots\<close>

text \<open>The keys of a handle container, in iteration order.\<close>

definition keys :: "(string \<times> 'v) list \<Rightarrow> string list" where
  "keys m = map fst m"

text \<open>Every joint with a handle has an entry in the command table.\<close>

definition all_entered :: "LCM2ROSControl \<Rightarrow> bool" where
  "all_entered s \<longleftrightarrow>
     set (keys (effortJointHandles s)) \<union> set (keys (positionJointHandles s))
       \<subseteq> dom (latest_commands s)"

text \<open>The joint names of the four messages a cycle builds: pose, commanded, torque, state.\<close>

definition snapshot_names ::
  "cycle_result \<Rightarrow> string list \<times> string list \<times> string list \<times> string list" where
  "snapshot_names r =
     (joint_name (lcm_pose_msg (locals r)), joint_name (lcm_commanded_msg (locals r)),
      joint_name (lcm_torque_msg (locals r)), joint_name (lcm_state_msg (locals r)))"

text \<open>
  The parameter \<^verbatim>\<open>joints\<close> as \<^verbatim>\<open>initRequest\<close> reads it (lines 66 to 73), and the names
  that a registration loop enters, in the order in which it enters them: those the
  interface lists, without the ones the selection leaves out and the ones whose handle
  cannot be had.
\<close>

definition selected_joints :: "NodeHandle \<Rightarrow> string list" where
  "selected_joints controller_nh =
     (case param_joints controller_nh of None \<Rightarrow> [] | Some js \<Rightarrow> js)"

definition registered_names :: "bool \<Rightarrow> string list \<Rightarrow> JointInterface \<Rightarrow> string list" where
  "registered_names use_joint_selection joint_names hw =
     filter (\<lambda>name. \<not> (use_joint_selection \<and> name \<notin> set joint_names)
                    \<and> getHandle hw name \<noteq> None) (getNames hw)"

text \<open>
  A robot with the effort-controlled joints a and b, a parameter server without any of
  the parameters, and the controller that \<^verbatim>\<open>initRequest\<close> makes of the two.
\<close>

definition two_joint_hw :: RobotHW where
  "two_joint_hw =
     \<lparr>EffortJointInterface =
        Some \<lparr>getNames = [''a'', ''b''],
              getHandle =
                [''a'' \<mapsto> \<lparr>hw_position = 1, hw_velocity = 0, hw_effort = 0, hw_command = 0\<rparr>,
                 ''b'' \<mapsto> \<lparr>hw_position = 0, hw_velocity = 0, hw_effort = 0, hw_command = 0\<rparr>]\<rparr>,
      PositionJointInterface = Some \<lparr>getNames = [], getHandle = Map.empty\<rparr>,
      ImuSensorInterface = True, ForceTorqueSensorInterface = True\<rparr>"

definition no_parameters :: NodeHandle where
  "no_parameters =
     \<lparr>param_publish_core_robot_state = None, param_publish_est_robot_state = None,
      param_apply_commands = None, param_joints = None, getJointLimits = Map.empty\<rparr>"

definition two_joint_controller :: LCM2ROSControl where
  "two_joint_controller = snd (initRequest constructed two_joint_hw no_parameters True)"

text \<open>
  A robot with the effort-controlled joints b and c and the position-controlled joint a,
  and its controller.
\<close>

definition three_joint_hw :: RobotHW where
  "three_joint_hw =
     \<lparr>EffortJointInterface =
        Some \<lparr>getNames = [''b'', ''c''],
              getHandle =
                [''b'' \<mapsto> \<lparr>hw_position = 0, hw_velocity = 0, hw_effort = 0, hw_command = 0\<rparr>,
                 ''c'' \<mapsto> \<lparr>hw_position = 1, hw_velocity = 0, hw_effort = 0, hw_command = 0\<rparr>]\<rparr>,
      PositionJointInterface =
        Some \<lparr>getNames = [''a''],
              getHandle =
                [''a'' \<mapsto> \<lparr>hw_position = 2, hw_velocity = 0, hw_effort = 0, hw_command = 0\<rparr>]\<rparr>,
      ImuSensorInterface = True, ForceTorqueSensorInterface = True\<rparr>"

definition three_joint_controller :: LCM2ROSControl where
  "three_joint_controller = snd (initRequest constructed three_joint_hw no_parameters True)"

text \<open>
  An effort-controlled joint with every gain and target set, and one at the measured
  position \<open>q\<close> with limits from -0.2 to 1 and a constant demand of 8.
\<close>

definition busy_joint :: LCM2ROSControl where
  "busy_joint =
     \<lparr>run_state = INITIALIZED, publishCoreRobotState = True, publish_est_robot_state = False,
      applyCommands = True,
      joint_limits = [''J1'' \<mapsto> \<lparr>min_position = - 1, max_position = 1, max_effort = 1000\<rparr>],
      latest_commands =
        [''J1'' \<mapsto> \<lparr>position = 1, velocity = 2, effort = 3, k_q_p = 4, k_q_i = 5, k_qd_p = 6,
                     k_f_p = 7, ff_qd = 8, ff_qd_d = 9, ff_f_d = 10, ff_const = 11\<rparr>],
      effortJointHandles =
        [(''J1'', \<lparr>hw_position = 1 / 2, hw_velocity = 1 / 4, hw_effort = 12, hw_command = 0\<rparr>)],
      positionJointHandles = [], last_update = 0\<rparr>"

definition ramp_joint :: "double \<Rightarrow> LCM2ROSControl" where
  "ramp_joint q =
     \<lparr>run_state = INITIALIZED, publishCoreRobotState = True, publish_est_robot_state = False,
      applyCommands = True,
      joint_limits = [''J1'' \<mapsto> \<lparr>min_position = - 1 / 5, max_position = 1, max_effort = 50\<rparr>],
      latest_commands = [''J1'' \<mapsto> zero_command\<lparr>ff_const := 8\<rparr>],
      effortJointHandles =
        [(''J1'', \<lparr>hw_position = q, hw_velocity = 0, hw_effort = 0, hw_command = 0\<rparr>)],
      positionJointHandles = [], last_update = 0\<rparr>"

section \<open>Properties\<close>

subsection \<open>Vectors written by a loop\<close>

lemma length_fill [simp]: "length (fill i vs xs) = length xs"
  by (induction vs arbitrary: i xs) simp_all

lemma fill_closed:
  "i + length vs \<le> length xs \<Longrightarrow> fill i vs xs = take i xs @ vs @ drop (i + length vs) xs"
proof (induction vs arbitrary: i xs)
  case Nil
  then show ?case by simp
next
  case (Cons v vs)
  have "fill i (v # vs) xs = fill (Suc i) vs (xs[i := v])" by simp
  also have "\<dots> = take (Suc i) (xs[i := v]) @ vs @ drop (Suc i + length vs) (xs[i := v])"
    using Cons.prems by (intro Cons.IH) simp
  also have "take (Suc i) (xs[i := v]) = take i xs @ [v]"
    using Cons.prems by (simp add: take_Suc_conv_app_nth)
  also have "drop (Suc i + length vs) (xs[i := v]) = drop (i + length (v # vs)) xs"
    by simp
  finally show ?case by simp
qed

lemma fill_replicate:
  "fill 0 vs (replicate (length vs + k) z) = vs @ replicate k z"
  by (simp add: fill_closed)

lemma fill_append:
  "fill (length vs) ws (vs @ replicate (length ws) z) = vs @ ws"
  by (simp add: fill_closed)

subsection \<open>The command table during a cycle\<close>

lemma map_index_apply:
  "snd (map_index d m k) k' = (if k' = k \<and> m k = None then Some d else m k')"
  by (simp add: map_index_def split: option.splits)

lemma lookup_map_index:
  "lookup hdr (snd (map_index (new_joint_command hdr) m k)) = lookup hdr m"
  by (rule ext) (simp add: lookup_def map_index_def split: option.splits)

lemma commands_effort_joint:
  "commands (snd (effort_joint hdr a dt jl i iter L))
     = snd (map_index (new_joint_command hdr) (commands L) (fst iter))"
  by (simp add: effort_joint_def Let_def)

lemma commands_position_joint:
  "commands (snd (position_joint hdr a jl i iter L))
     = snd (map_index (new_joint_command hdr) (commands L) (fst iter))"
  by (simp add: position_joint_def Let_def)

lemma lookup_effort_joint:
  "lookup hdr (commands (snd (effort_joint hdr a dt jl i iter L))) = lookup hdr (commands L)"
  by (simp add: commands_effort_joint lookup_map_index)

lemma lookup_position_joint:
  "lookup hdr (commands (snd (position_joint hdr a jl i iter L))) = lookup hdr (commands L)"
  by (simp add: commands_position_joint lookup_map_index)

lemma commands_effort_loop:
  "commands (snd (snd (effort_loop hdr a dt jl hs i L))) n
     = (if n \<in> fst ` set hs \<and> commands L n = None then Some (new_joint_command hdr)
        else commands L n)"
  by (induction hs arbitrary: i L)
     (auto simp add: split_beta commands_effort_joint map_index_apply)

lemma commands_position_loop:
  "commands (snd (snd (position_loop hdr a jl hs i L))) n
     = (if n \<in> fst ` set hs \<and> commands L n = None then Some (new_joint_command hdr)
        else commands L n)"
  by (induction hs arbitrary: i L)
     (auto simp add: split_beta commands_position_joint map_index_apply)

lemma lookup_effort_loop:
  "lookup hdr (commands (snd (snd (effort_loop hdr a dt jl hs i L)))) = lookup hdr (commands L)"
  by (induction hs arbitrary: i L) (simp_all add: split_beta lookup_effort_joint)

lemma lookup_position_loop:
  "lookup hdr (commands (snd (snd (position_loop hdr a jl hs i L)))) = lookup hdr (commands L)"
  by (induction hs arbitrary: i L) (simp_all add: split_beta lookup_position_joint)

subsection \<open>The loops in closed form\<close>

lemma getEffort_setCommand [simp]: "getEffort (setCommand h c) = getEffort h"
  by (simp add: getEffort_def setCommand_def)

lemma effort_loop_index:
  "fst (snd (effort_loop hdr a dt jl hs i L)) = i + length hs"
  by (induction hs arbitrary: i L) (simp_all add: split_beta)

lemma position_loop_index:
  "fst (snd (position_loop hdr a jl hs i L)) = i + length hs"
  by (induction hs arbitrary: i L) (simp_all add: split_beta)

lemma effort_joint_value:
  "joint_position (lcm_torque_msg (snd (effort_joint hdr a dt jl i iter L)))
     = (joint_position (lcm_torque_msg L))[i := effort_value hdr dt jl (commands L) iter]"
  by (simp add: effort_joint_def Let_def effort_value_def command_effort_final_def ramp_def
        lookup_def)

lemma effort_joint_handle:
  "fst (effort_joint hdr a dt jl i iter L)
     = (if a then setCommand (snd iter) (applied_effort (effort_value hdr dt jl (commands L) iter))
        else snd iter)"
  by (simp add: effort_joint_def Let_def effort_value_def command_effort_final_def ramp_def
        lookup_def)

lemma position_joint_handle:
  "fst (position_joint hdr a jl i iter L)
     = (if a then setCommand (snd iter) (position_value hdr jl (commands L) iter)
        else snd iter)"
  by (simp add: position_joint_def Let_def position_value_def lookup_def)

lemma effort_value_step:
  "effort_value hdr dt jl (commands (snd (effort_joint hdr a dt' jl' i iter L)))
     = effort_value hdr dt jl (commands L)"
  by (rule ext) (simp add: effort_value_def lookup_effort_joint)

lemma position_value_step:
  "position_value hdr jl (commands (snd (position_joint hdr a jl' i iter L)))
     = position_value hdr jl (commands L)"
  by (rule ext) (simp add: position_value_def lookup_position_joint)

lemma effort_loop_torque:
  "joint_position (lcm_torque_msg (snd (snd (effort_loop hdr a dt jl hs i L))))
     = fill i (map (effort_value hdr dt jl (commands L)) hs) (joint_position (lcm_torque_msg L))"
  by (induction hs arbitrary: i L)
     (simp_all add: split_beta effort_joint_value effort_value_step)

lemma effort_loop_handles:
  "fst (effort_loop hdr a dt jl hs i L)
     = map (\<lambda>iter. (fst iter,
              if a then setCommand (snd iter)
                          (applied_effort (effort_value hdr dt jl (commands L) iter))
              else snd iter)) hs"
  by (induction hs arbitrary: i L)
     (simp_all add: split_beta effort_joint_handle effort_value_step)

lemma position_loop_handles:
  "fst (position_loop hdr a jl hs i L)
     = map (\<lambda>iter. (fst iter,
              if a then setCommand (snd iter) (position_value hdr jl (commands L) iter)
              else snd iter)) hs"
  by (induction hs arbitrary: i L)
     (simp_all add: split_beta position_joint_handle position_value_step)

lemma position_joint_torque:
  "lcm_torque_msg (snd (position_joint hdr a jl i iter L)) = lcm_torque_msg L"
  by (simp add: position_joint_def Let_def)

lemma position_loop_torque:
  "lcm_torque_msg (snd (snd (position_loop hdr a jl hs i L))) = lcm_torque_msg L"
  by (induction hs arbitrary: i L) (simp_all add: split_beta position_joint_torque)

lemma effort_joint_names:
  "joint_name (lcm_pose_msg (snd (effort_joint hdr a dt jl i iter L)))
     = (joint_name (lcm_pose_msg L))[i := fst iter]"
  "joint_name (lcm_commanded_msg (snd (effort_joint hdr a dt jl i iter L)))
     = (joint_name (lcm_commanded_msg L))[i := fst iter]"
  "joint_name (lcm_torque_msg (snd (effort_joint hdr a dt jl i iter L)))
     = (joint_name (lcm_torque_msg L))[i := fst iter]"
  "joint_name (lcm_state_msg (snd (effort_joint hdr a dt jl i iter L)))
     = (joint_name (lcm_state_msg L))[i := fst iter]"
  by (simp_all add: effort_joint_def Let_def)

lemma position_joint_names:
  "joint_name (lcm_pose_msg (snd (position_joint hdr a jl i iter L)))
     = (joint_name (lcm_pose_msg L))[i := fst iter]"
  "joint_name (lcm_commanded_msg (snd (position_joint hdr a jl i iter L)))
     = (joint_name (lcm_commanded_msg L))[i := fst iter]"
  "joint_name (lcm_state_msg (snd (position_joint hdr a jl i iter L)))
     = (joint_name (lcm_state_msg L))[i := fst iter]"
  by (simp_all add: position_joint_def Let_def)

lemma effort_loop_names:
  "joint_name (lcm_pose_msg (snd (snd (effort_loop hdr a dt jl hs i L))))
     = fill i (map fst hs) (joint_name (lcm_pose_msg L))"
  "joint_name (lcm_commanded_msg (snd (snd (effort_loop hdr a dt jl hs i L))))
     = fill i (map fst hs) (joint_name (lcm_commanded_msg L))"
  "joint_name (lcm_torque_msg (snd (snd (effort_loop hdr a dt jl hs i L))))
     = fill i (map fst hs) (joint_name (lcm_torque_msg L))"
  "joint_name (lcm_state_msg (snd (snd (effort_loop hdr a dt jl hs i L))))
     = fill i (map fst hs) (joint_name (lcm_state_msg L))"
  by (induction hs arbitrary: i L) (simp_all add: split_beta effort_joint_names)

lemma position_loop_names:
  "joint_name (lcm_pose_msg (snd (snd (position_loop hdr a jl hs i L))))
     = fill i (map fst hs) (joint_name (lcm_pose_msg L))"
  "joint_name (lcm_commanded_msg (snd (snd (position_loop hdr a jl hs i L))))
     = fill i (map fst hs) (joint_name (lcm_commanded_msg L))"
  "joint_name (lcm_state_msg (snd (snd (position_loop hdr a jl hs i L))))
     = fill i (map fst hs) (joint_name (lcm_state_msg L))"
  by (induction hs arbitrary: i L) (simp_all add: split_beta position_joint_names)

subsection \<open>The messages do not depend on the apply flag\<close>

lemma effort_joint_same:
  "same_messages L L' \<Longrightarrow>
   same_messages (snd (effort_joint hdr a dt jl i iter L)) (snd (effort_joint hdr a' dt jl i iter L'))"
  by (simp add: same_messages_def effort_joint_def Let_def)

lemma position_joint_same:
  "same_messages L L' \<Longrightarrow>
   same_messages (snd (position_joint hdr a jl i iter L)) (snd (position_joint hdr a' jl i iter L'))"
  by (simp add: same_messages_def position_joint_def Let_def)

lemma effort_loop_same:
  "same_messages L L' \<Longrightarrow>
   same_messages (snd (snd (effort_loop hdr a dt jl hs i L)))
                 (snd (snd (effort_loop hdr a' dt jl hs i L')))"
proof (induction hs arbitrary: i L L')
  case Nil
  then show ?case by simp
next
  case (Cons iter rest)
  from Cons.IH [OF effort_joint_same [OF Cons.prems]]
  show ?case by (simp add: split_beta)
qed

lemma position_loop_same:
  "same_messages L L' \<Longrightarrow>
   same_messages (snd (snd (position_loop hdr a jl hs i L)))
                 (snd (snd (position_loop hdr a' jl hs i L')))"
proof (induction hs arbitrary: i L L')
  case Nil
  then show ?case by simp
next
  case (Cons iter rest)
  from Cons.IH [OF position_joint_same [OF Cons.prems]]
  show ?case by (simp add: split_beta)
qed

lemma effort_loop_dry:
  "hw_writes (snd (snd (effort_loop hdr False dt jl hs i L))) = hw_writes L
   \<and> fst (effort_loop hdr False dt jl hs i L) = hs"
  by (induction hs arbitrary: i L) (simp_all add: effort_joint_def Let_def split_beta)

lemma position_loop_dry:
  "hw_writes (snd (snd (position_loop hdr False jl hs i L))) = hw_writes L
   \<and> fst (position_loop hdr False jl hs i L) = hs"
  by (induction hs arbitrary: i L) (simp_all add: position_joint_def Let_def split_beta)

lemma same_messages_refl: "same_messages L L"
  by (simp add: same_messages_def)

subsection \<open>One cycle\<close>

lemma init_locals_simps:
  "commands (init_locals s time) = latest_commands s"
  "hw_writes (init_locals s time) = []"
  "joint_name (lcm_pose_msg (init_locals s time))
     = replicate (length (effortJointHandles s) + length (positionJointHandles s)) []"
  "joint_name (lcm_commanded_msg (init_locals s time))
     = replicate (length (effortJointHandles s) + length (positionJointHandles s)) []"
  "joint_name (lcm_state_msg (init_locals s time))
     = replicate (length (effortJointHandles s) + length (positionJointHandles s)) []"
  "joint_name (lcm_torque_msg (init_locals s time)) = replicate (length (effortJointHandles s)) []"
  "joint_position (lcm_torque_msg (init_locals s time))
     = replicate (length (effortJointHandles s)) 0"
  by (simp_all add: init_locals_def Let_def)

lemma init_locals_flag: "init_locals (s\<lparr>applyCommands := b\<rparr>) time = init_locals s time"
  by (simp add: init_locals_def)

lemma cycle_published: "published (control_cycle hdr s time) = []"
  by (simp add: control_cycle_def Let_def split_beta)

lemma cycle_names_pose:
  "joint_name (lcm_pose_msg (locals (control_cycle hdr s time)))
     = map fst (effortJointHandles s) @ map fst (positionJointHandles s)"
proof -
  have "fill (length (map fst (effortJointHandles s))) (map fst (positionJointHandles s))
          (fill 0 (map fst (effortJointHandles s))
             (replicate (length (map fst (effortJointHandles s))
                 + length (map fst (positionJointHandles s))) []))
        = map fst (effortJointHandles s) @ map fst (positionJointHandles s)"
    by (simp only: fill_replicate fill_append)
  then show ?thesis
    by (simp add: control_cycle_def Let_def split_beta position_loop_names effort_loop_names
          effort_loop_index init_locals_simps)
qed

lemma cycle_names_commanded:
  "joint_name (lcm_commanded_msg (locals (control_cycle hdr s time)))
     = map fst (effortJointHandles s) @ map fst (positionJointHandles s)"
proof -
  have "fill (length (map fst (effortJointHandles s))) (map fst (positionJointHandles s))
          (fill 0 (map fst (effortJointHandles s))
             (replicate (length (map fst (effortJointHandles s))
                 + length (map fst (positionJointHandles s))) []))
        = map fst (effortJointHandles s) @ map fst (positionJointHandles s)"
    by (simp only: fill_replicate fill_append)
  then show ?thesis
    by (simp add: control_cycle_def Let_def split_beta position_loop_names effort_loop_names
          effort_loop_index init_locals_simps)
qed

lemma cycle_names_state:
  "joint_name (lcm_state_msg (locals (control_cycle hdr s time)))
     = map fst (effortJointHandles s) @ map fst (positionJointHandles s)"
proof -
  have "fill (length (map fst (effortJointHandles s))) (map fst (positionJointHandles s))
          (fill 0 (map fst (effortJointHandles s))
             (replicate (length (map fst (effortJointHandles s))
                 + length (map fst (positionJointHandles s))) []))
        = map fst (effortJointHandles s) @ map fst (positionJointHandles s)"
    by (simp only: fill_replicate fill_append)
  then show ?thesis
    by (simp add: control_cycle_def Let_def split_beta position_loop_names effort_loop_names
          effort_loop_index init_locals_simps)
qed

lemma cycle_names_torque:
  "joint_name (lcm_torque_msg (locals (control_cycle hdr s time)))
     = map fst (effortJointHandles s)"
  using fill_replicate [of "map fst (effortJointHandles s)" 0 "[]"]
  by (simp add: control_cycle_def Let_def split_beta position_loop_torque effort_loop_names
        init_locals_simps)

lemma cycle_torque:
  "joint_position (lcm_torque_msg (locals (control_cycle hdr s time)))
     = map (effort_value hdr (time - last_update s) (joint_limits s) (latest_commands s))
         (effortJointHandles s)"
  using fill_replicate [of "map (effort_value hdr (time - last_update s) (joint_limits s)
      (latest_commands s)) (effortJointHandles s)" 0 "0"]
  by (simp add: control_cycle_def Let_def split_beta position_loop_torque effort_loop_torque
        init_locals_simps)

lemma cycle_torque_nth:
  assumes "i < length (effortJointHandles s)"
    and "effortJointHandles s ! i = (name, h)"
    and "latest_commands s name = Some command"
  shows "joint_position (lcm_torque_msg (locals (control_cycle hdr s time))) ! i
     = rate_clamp (FORCE_CONTROL_MAX_CHANGE hdr) (hw_effort h)
         (ramp_by_err (FORCE_CONTROL_ALLOWABLE_POSITION_ERR_BOUND hdr)
            (err_beyond_bound (effort_limits hdr (joint_limits s) name) (hw_position h))
            (clamp (command_effort_raw command (hw_position h) (hw_velocity h) (hw_effort h)
                      (time - last_update s))
               (- max_effort (effort_limits hdr (joint_limits s) name))
               (max_effort (effort_limits hdr (joint_limits s) name))))"
  using assms
  by (simp add: cycle_torque effort_value_def lookup_def map_index_def command_effort_final_def
        ramp_def getPosition_def getVelocity_def getEffort_def)

lemma cycle_effort_handles:
  "effortJointHandles (self (control_cycle hdr s time))
     = map (\<lambda>iter. (fst iter,
              if applyCommands s
              then setCommand (snd iter)
                     (applied_effort (effort_value hdr (time - last_update s) (joint_limits s)
                        (latest_commands s) iter))
              else snd iter)) (effortJointHandles s)"
  by (simp add: control_cycle_def Let_def split_beta effort_loop_handles init_locals_simps)

lemma position_value_loop:
  "position_value hdr jl (commands (snd (snd (effort_loop hdr a dt jl' hs i L))))
     = position_value hdr jl (commands L)"
  by (rule ext) (simp add: position_value_def lookup_effort_loop)

lemma cycle_position_handles:
  "positionJointHandles (self (control_cycle hdr s time))
     = map (\<lambda>iter. (fst iter,
              if applyCommands s
              then setCommand (snd iter)
                     (position_value hdr (joint_limits s) (latest_commands s) iter)
              else snd iter)) (positionJointHandles s)"
  by (simp add: control_cycle_def Let_def split_beta position_loop_handles position_value_loop
        init_locals_simps)

lemma cycle_commands:
  "latest_commands (self (control_cycle hdr s time)) n
     = (if n \<in> fst ` set (effortJointHandles s) \<union> fst ` set (positionJointHandles s)
           \<and> latest_commands s n = None
        then Some (new_joint_command hdr) else latest_commands s n)"
  by (simp add: control_cycle_def Let_def split_beta commands_position_loop
        commands_effort_loop init_locals_simps)

lemma cycle_same:
  "same_messages (locals (control_cycle hdr (s\<lparr>applyCommands := False\<rparr>) time))
                 (locals (control_cycle hdr (s\<lparr>applyCommands := True\<rparr>) time))"
proof -
  let ?L = "init_locals s time"
  let ?dt = "time - last_update s"
  have e: "same_messages
             (snd (snd (effort_loop hdr False ?dt (joint_limits s) (effortJointHandles s) 0 ?L)))
             (snd (snd (effort_loop hdr True ?dt (joint_limits s) (effortJointHandles s) 0 ?L)))"
    by (rule effort_loop_same [OF same_messages_refl])
  show ?thesis
    using position_loop_same [OF e, of hdr False "joint_limits s" "positionJointHandles s"
        "length (effortJointHandles s)" True]
    by (simp add: control_cycle_def Let_def split_beta effort_loop_index init_locals_flag)
qed

lemma cycle_dry:
  "hw_writes (locals (control_cycle hdr (s\<lparr>applyCommands := False\<rparr>) time)) = []"
  "effortJointHandles (self (control_cycle hdr (s\<lparr>applyCommands := False\<rparr>) time))
     = effortJointHandles s"
  "positionJointHandles (self (control_cycle hdr (s\<lparr>applyCommands := False\<rparr>) time))
     = positionJointHandles s"
  by (simp_all add: control_cycle_def Let_def split_beta effort_loop_dry position_loop_dry
        init_locals_simps)

subsection \<open>The command handler on a decoded batch\<close>

lemma loop_bound_decoded: "decoded msg \<Longrightarrow> loop_bound msg = length (msg_joint_names msg)"
  by (simp add: decoded_def loop_bound_def)

lemma handler_step_decoded:
  "decoded msg \<Longrightarrow> i < length (msg_joint_names msg) \<Longrightarrow>
   handler_step msg i cmds = Inr (apply_at msg cmds i)"
  by (simp add: handler_step_def apply_at_def decoded_def all_in_range_def split: option.splits)

lemma handler_loop_decoded:
  "decoded msg \<Longrightarrow> \<forall>i\<in>set idxs. i < length (msg_joint_names msg) \<Longrightarrow>
   handler_loop msg idxs cmds = Inr (foldl (apply_at msg) cmds idxs)"
  by (induction idxs arbitrary: cmds) (simp_all add: handler_step_decoded)

lemma dom_apply_at: "dom (apply_at msg cmds i) = dom cmds"
  by (auto simp add: apply_at_def split: option.splits)

lemma dom_foldl_apply_at: "dom (foldl (apply_at msg) cmds idxs) = dom cmds"
  by (induction idxs arbitrary: cmds) (simp_all add: dom_apply_at)

lemma apply_at_other:
  "msg_joint_names msg ! i \<noteq> n \<Longrightarrow> apply_at msg cmds i n = cmds n"
  by (simp add: apply_at_def split: option.splits)

lemma foldl_apply_at_other:
  "\<forall>i\<in>set idxs. msg_joint_names msg ! i \<noteq> n \<Longrightarrow> foldl (apply_at msg) cmds idxs n = cmds n"
  by (induction idxs arbitrary: cmds) (simp_all add: apply_at_other)

lemma apply_at_present:
  "msg_joint_names msg ! i \<in> dom cmds \<Longrightarrow>
   apply_at msg cmds i (msg_joint_names msg ! i) = Some (command_at msg i)"
  by (auto simp add: apply_at_def split: option.splits)

lemma foldl_apply_at_last:
  assumes "i < k" and "msg_joint_names msg ! i \<in> dom cmds"
    and "\<forall>j. i < j \<and> j < k \<longrightarrow> msg_joint_names msg ! j \<noteq> msg_joint_names msg ! i"
  shows "foldl (apply_at msg) cmds [0..<k] (msg_joint_names msg ! i) = Some (command_at msg i)"
proof -
  have "[0..<k] = [0..<i] @ [i..<k]"
    using assms(1) upt_add_eq_append [of 0 i "k - i"] by simp
  also have "[i..<k] = i # [Suc i..<k]"
    using assms(1) by (simp add: upt_conv_Cons)
  finally have split: "[0..<k] = [0..<i] @ i # [Suc i..<k]" .
  let ?m = "foldl (apply_at msg) cmds [0..<i]"
  have "msg_joint_names msg ! i \<in> dom ?m"
    using assms(2) by (simp add: dom_foldl_apply_at)
  then have at_i: "apply_at msg ?m i (msg_joint_names msg ! i) = Some (command_at msg i)"
    by (rule apply_at_present)
  have "\<forall>j\<in>set [Suc i..<k]. msg_joint_names msg ! j \<noteq> msg_joint_names msg ! i"
    using assms(3) by simp
  then have "foldl (apply_at msg) (apply_at msg ?m i) [Suc i..<k] (msg_joint_names msg ! i)
               = apply_at msg ?m i (msg_joint_names msg ! i)"
    by (rule foldl_apply_at_other)
  with at_i show ?thesis by (simp add: split)
qed

lemmas stage_defs =
  effort_value_def lookup_def map_index_def command_effort_final_def command_effort_raw_def
  effort_limits_def clamp_def ramp_def ramp_by_err_def err_beyond_bound_def rate_clamp_def
  applied_effort_def getPosition_def getVelocity_def getEffort_def setCommand_def
  zero_command_def example_header_def position_value_def position_to_go_def
  position_limits_def default_limits_def

subsection \<open>Registration\<close>

lemma map_assign_keys: "set (keys (map_assign k v m)) = insert k (set (keys m))"
  by (induction m) (auto simp add: keys_def)

lemma map_assign_sorted:
  "sorted_wrt (<) (keys m) \<Longrightarrow> sorted_wrt (<) (keys (map_assign k v m))"
proof (induction m)
  case Nil
  then show ?case by (simp add: keys_def)
next
  case (Cons entry rest)
  show ?case
  proof (cases "k < fst entry")
    case True
    with Cons.prems show ?thesis by (auto simp add: keys_def)
  next
    case False
    show ?thesis
    proof (cases "k = fst entry")
      case True
      with Cons.prems show ?thesis by (simp add: keys_def)
    next
      case ne: False
      with False have lt: "fst entry < k" by simp
      from Cons.prems have "sorted_wrt (<) (keys rest)"
        and above: "\<forall>x\<in>set (keys rest). fst entry < x"
        by (simp_all add: keys_def)
      then have "sorted_wrt (<) (keys (map_assign k v rest))" by (simp add: Cons.IH)
      moreover from above lt have "\<forall>x\<in>set (keys (map_assign k v rest)). fst entry < x"
        by (simp add: map_assign_keys)
      ultimately show ?thesis using False ne by (simp add: keys_def)
    qed
  qed
qed

lemma register_effort_sorted:
  "sorted_wrt (<) (keys (effortJointHandles s)) \<Longrightarrow>
   sorted_wrt (<) (keys (effortJointHandles (register_effort u js hw names s)))"
  by (induction names arbitrary: s) (auto simp add: map_assign_sorted split: option.splits)

lemma register_effort_position:
  "positionJointHandles (register_effort u js hw names s) = positionJointHandles s"
  by (induction names arbitrary: s) (auto split: option.splits)

lemma register_position_sorted:
  "sorted_wrt (<) (keys (positionJointHandles s)) \<Longrightarrow>
   sorted_wrt (<) (keys (positionJointHandles (register_position u js hw names s)))"
  by (induction names arbitrary: s) (auto simp add: map_assign_sorted split: option.splits)

lemma register_position_effort:
  "effortJointHandles (register_position u js hw names s) = effortJointHandles s"
  by (induction names arbitrary: s) (auto split: option.splits)

lemma register_effort_entered:
  "all_entered s \<Longrightarrow> all_entered (register_effort u js hw names s)"
proof (induction names arbitrary: s)
  case Nil
  then show ?case by simp
next
  case (Cons name rest)
  show ?case
  proof (cases "(u \<and> name \<notin> set js) \<or> getHandle hw name = None")
    case True
    with Cons show ?thesis by auto
  next
    case False
    then obtain h where h: "getHandle hw name = Some h" by auto
    have "all_entered (s\<lparr>effortJointHandles := map_assign name h (effortJointHandles s),
                     latest_commands := (latest_commands s)(name \<mapsto> zero_command)\<rparr>)"
      using Cons.prems by (auto simp add: all_entered_def map_assign_keys)
    from Cons.IH [OF this] False h show ?thesis by auto
  qed
qed

lemma register_position_entered:
  "all_entered s \<Longrightarrow> all_entered (register_position u js hw names s)"
proof (induction names arbitrary: s)
  case Nil
  then show ?case by simp
next
  case (Cons name rest)
  show ?case
  proof (cases "(u \<and> name \<notin> set js) \<or> getHandle hw name = None")
    case True
    with Cons show ?thesis by auto
  next
    case False
    then obtain h where h: "getHandle hw name = Some h" by auto
    have "all_entered (s\<lparr>positionJointHandles := map_assign name h (positionJointHandles s),
                     latest_commands := (latest_commands s)(name \<mapsto> zero_command)\<rparr>)"
      using Cons.prems by (auto simp add: all_entered_def map_assign_keys)
    from Cons.IH [OF this] False h show ?thesis by auto
  qed
qed

lemma initRequest_sorted:
  assumes "initRequest constructed robot_hw controller_nh lcm_good = (True, s)"
  shows "sorted_wrt (<) (keys (effortJointHandles s))
       \<and> sorted_wrt (<) (keys (positionJointHandles s)) \<and> all_entered s"
proof -
  let ?s1 = "constructed\<lparr>publishCoreRobotState :=
                     (case param_publish_core_robot_state controller_nh of
                        None \<Rightarrow> True | Some b \<Rightarrow> b),
                   publish_est_robot_state :=
                     (case param_publish_est_robot_state controller_nh of
                        None \<Rightarrow> False | Some b \<Rightarrow> b),
                   applyCommands :=
                     (case param_apply_commands controller_nh of
                        None \<Rightarrow> False | Some b \<Rightarrow> b)\<rparr>"
  let ?js = "case param_joints controller_nh of None \<Rightarrow> [] | Some js \<Rightarrow> js"
  let ?s2 = "?s1\<lparr>joint_limits :=
                           load_limits (getJointLimits controller_nh) ?js
                             (joint_limits ?s1)\<rparr>"
  from assms obtain effort_hw position_hw where
    s: "s = (register_position (length ?js \<noteq> 0) ?js position_hw (getNames position_hw)
              (register_effort (length ?js \<noteq> 0) ?js effort_hw (getNames effort_hw) ?s2))
              \<lparr>run_state := INITIALIZED\<rparr>"
    by (auto simp add: initRequest_def Let_def split: if_splits option.splits)
  have e: "sorted_wrt (<) (keys (effortJointHandles ?s2))"
    and p: "sorted_wrt (<) (keys (positionJointHandles ?s2))"
    and a: "all_entered ?s2"
    by (simp_all add: constructed_def keys_def all_entered_def)
  show ?thesis
    unfolding s
    using register_position_sorted [of "register_effort (length ?js \<noteq> 0) ?js effort_hw (getNames effort_hw) ?s2"
        "length ?js \<noteq> 0" ?js position_hw "getNames position_hw"]
      register_effort_sorted [OF e, of "length ?js \<noteq> 0" ?js effort_hw "getNames effort_hw"]
      register_position_entered [OF register_effort_entered [OF a],
        of "length ?js \<noteq> 0" ?js position_hw "getNames position_hw" "length ?js \<noteq> 0" ?js effort_hw "getNames effort_hw"]
      p
    by (simp add: register_position_effort register_effort_position all_entered_def)
qed

lemma two_joint_init:
  "initRequest constructed two_joint_hw no_parameters True
     = (True, constructed\<lparr>run_state := INITIALIZED, publishCoreRobotState := True,
          effortJointHandles :=
            [(''a'', \<lparr>hw_position = 1, hw_velocity = 0, hw_effort = 0, hw_command = 0\<rparr>),
             (''b'', \<lparr>hw_position = 0, hw_velocity = 0, hw_effort = 0, hw_command = 0\<rparr>)],
          latest_commands := [''a'' \<mapsto> zero_command, ''b'' \<mapsto> zero_command]\<rparr>)"
  by (simp add: initRequest_def two_joint_hw_def no_parameters_def constructed_def Let_def)

lemma two_joint_controller_eq:
  "initRequest constructed two_joint_hw no_parameters True = (True, two_joint_controller)"
  by (simp add: two_joint_controller_def two_joint_init)

lemma map_assign_last:
  "\<forall>x\<in>set (keys m). x < k \<Longrightarrow> map_assign k v m = m @ [(k, v)]"
  by (induction m) (auto simp add: keys_def)

lemma register_effort_order:
  "sorted_wrt (<) names \<Longrightarrow>
   \<forall>x\<in>set (keys (effortJointHandles s)). \<forall>n\<in>set names. x < n \<Longrightarrow>
   keys (effortJointHandles (register_effort u js hw names s))
     = keys (effortJointHandles s)
       @ filter (\<lambda>name. \<not> (u \<and> name \<notin> set js) \<and> getHandle hw name \<noteq> None) names"
proof (induction names arbitrary: s)
  case Nil
  then show ?case by simp
next
  case (Cons name rest)
  from Cons.prems have rest: "sorted_wrt (<) rest" and lt: "\<forall>n\<in>set rest. name < n"
    by simp_all
  show ?case
  proof (cases "(u \<and> name \<notin> set js) \<or> getHandle hw name = None")
    case True
    from Cons.prems have "\<forall>x\<in>set (keys (effortJointHandles s)). \<forall>n\<in>set rest. x < n"
      by simp
    from Cons.IH [OF rest this] True show ?thesis by auto
  next
    case False
    then obtain h where h: "getHandle hw name = Some h" by auto
    let ?s = "s\<lparr>effortJointHandles := map_assign name h (effortJointHandles s),
                latest_commands := (latest_commands s)(name \<mapsto> zero_command)\<rparr>"
    from Cons.prems have below: "\<forall>x\<in>set (keys (effortJointHandles s)). x < name"
      by simp
    then have k: "keys (effortJointHandles ?s) = keys (effortJointHandles s) @ [name]"
      by (simp add: map_assign_last keys_def)
    have "\<forall>x\<in>set (keys (effortJointHandles ?s)). \<forall>n\<in>set rest. x < n"
      using Cons.prems lt by (auto simp add: map_assign_keys)
    from Cons.IH [OF rest this] k False h show ?thesis by auto
  qed
qed

lemma register_position_order:
  "sorted_wrt (<) names \<Longrightarrow>
   \<forall>x\<in>set (keys (positionJointHandles s)). \<forall>n\<in>set names. x < n \<Longrightarrow>
   keys (positionJointHandles (register_position u js hw names s))
     = keys (positionJointHandles s)
       @ filter (\<lambda>name. \<not> (u \<and> name \<notin> set js) \<and> getHandle hw name \<noteq> None) names"
proof (induction names arbitrary: s)
  case Nil
  then show ?case by simp
next
  case (Cons name rest)
  from Cons.prems have rest: "sorted_wrt (<) rest" and lt: "\<forall>n\<in>set rest. name < n"
    by simp_all
  show ?case
  proof (cases "(u \<and> name \<notin> set js) \<or> getHandle hw name = None")
    case True
    from Cons.prems have "\<forall>x\<in>set (keys (positionJointHandles s)). \<forall>n\<in>set rest. x < n"
      by simp
    from Cons.IH [OF rest this] True show ?thesis by auto
  next
    case False
    then obtain h where h: "getHandle hw name = Some h" by auto
    let ?s = "s\<lparr>positionJointHandles := map_assign name h (positionJointHandles s),
                latest_commands := (latest_commands s)(name \<mapsto> zero_command)\<rparr>"
    from Cons.prems have below: "\<forall>x\<in>set (keys (positionJointHandles s)). x < name"
      by simp
    then have k: "keys (positionJointHandles ?s) = keys (positionJointHandles s) @ [name]"
      by (simp add: map_assign_last keys_def)
    have "\<forall>x\<in>set (keys (positionJointHandles ?s)). \<forall>n\<in>set rest. x < n"
      using Cons.prems lt by (auto simp add: map_assign_keys)
    from Cons.IH [OF rest this] k False h show ?thesis by auto
  qed
qed

lemma initRequest_order:
  assumes "initRequest constructed robot_hw controller_nh lcm_good = (True, s)"
    and "EffortJointInterface robot_hw = Some effort_hw"
    and "PositionJointInterface robot_hw = Some position_hw"
    and "sorted_wrt (<) (getNames effort_hw)"
    and "sorted_wrt (<) (getNames position_hw)"
  shows "keys (effortJointHandles s)
           = registered_names (length (selected_joints controller_nh) \<noteq> 0)
               (selected_joints controller_nh) effort_hw
       \<and> keys (positionJointHandles s)
           = registered_names (length (selected_joints controller_nh) \<noteq> 0)
               (selected_joints controller_nh) position_hw"
proof -
  let ?js = "selected_joints controller_nh"
  let ?u = "length ?js \<noteq> 0"
  let ?s1 = "constructed\<lparr>publishCoreRobotState :=
                     (case param_publish_core_robot_state controller_nh of
                        None \<Rightarrow> True | Some b \<Rightarrow> b),
                   publish_est_robot_state :=
                     (case param_publish_est_robot_state controller_nh of
                        None \<Rightarrow> False | Some b \<Rightarrow> b),
                   applyCommands :=
                     (case param_apply_commands controller_nh of
                        None \<Rightarrow> False | Some b \<Rightarrow> b)\<rparr>"
  let ?s2 = "?s1\<lparr>joint_limits :=
                 load_limits (getJointLimits controller_nh) ?js (joint_limits ?s1)\<rparr>"
  let ?s3 = "register_effort ?u ?js effort_hw (getNames effort_hw) ?s2"
  from assms(1-3) have
    s: "s = (register_position ?u ?js position_hw (getNames position_hw) ?s3)
              \<lparr>run_state := INITIALIZED\<rparr>"
    by (auto simp add: initRequest_def Let_def selected_joints_def split: if_splits)
  have e0: "keys (effortJointHandles ?s2) = []" and p0: "keys (positionJointHandles ?s2) = []"
    by (simp_all add: constructed_def keys_def)
  have e: "keys (effortJointHandles ?s3) = registered_names ?u ?js effort_hw"
    using register_effort_order [OF assms(4), of ?s2 ?u ?js effort_hw] e0
    by (simp add: registered_names_def)
  have "keys (positionJointHandles ?s3) = []"
    using p0 by (simp add: register_effort_position)
  then have p: "keys (positionJointHandles (register_position ?u ?js position_hw
                    (getNames position_hw) ?s3)) = registered_names ?u ?js position_hw"
    using register_position_order [OF assms(5), of ?s3 ?u ?js position_hw]
    by (simp add: registered_names_def)
  from e p show ?thesis
    unfolding s by (simp add: register_position_effort)
qed

lemma three_joint_init:
  "initRequest constructed three_joint_hw no_parameters True
     = (True, constructed\<lparr>run_state := INITIALIZED, publishCoreRobotState := True,
          effortJointHandles :=
            [(''b'', \<lparr>hw_position = 0, hw_velocity = 0, hw_effort = 0, hw_command = 0\<rparr>),
             (''c'', \<lparr>hw_position = 1, hw_velocity = 0, hw_effort = 0, hw_command = 0\<rparr>)],
          positionJointHandles :=
            [(''a'', \<lparr>hw_position = 2, hw_velocity = 0, hw_effort = 0, hw_command = 0\<rparr>)],
          latest_commands :=
            [''b'' \<mapsto> zero_command, ''c'' \<mapsto> zero_command, ''a'' \<mapsto> zero_command]\<rparr>)"
  by (simp add: initRequest_def three_joint_hw_def no_parameters_def constructed_def Let_def)

lemma three_joint_controller_eq:
  "initRequest constructed three_joint_hw no_parameters True = (True, three_joint_controller)"
  by (simp add: three_joint_controller_def three_joint_init)

lemma cycle_keys:
  "keys (effortJointHandles (self (control_cycle hdr s time))) = keys (effortJointHandles s)"
  "keys (positionJointHandles (self (control_cycle hdr s time))) = keys (positionJointHandles s)"
  by (simp_all add: keys_def cycle_effort_handles cycle_position_handles comp_def)

lemma cycle_snapshot_names:
  "snapshot_names (control_cycle hdr s time)
     = (keys (effortJointHandles s) @ keys (positionJointHandles s),
        keys (effortJointHandles s) @ keys (positionJointHandles s),
        keys (effortJointHandles s),
        keys (effortJointHandles s) @ keys (positionJointHandles s))"
  by (simp add: snapshot_names_def keys_def cycle_names_pose cycle_names_commanded
        cycle_names_torque cycle_names_state)

lemma cycle_entered:
  "all_entered s \<Longrightarrow> latest_commands (self (control_cycle hdr s time)) = latest_commands s"
proof (rule ext)
  fix n
  assume "all_entered s"
  then show "latest_commands (self (control_cycle hdr s time)) n = latest_commands s n"
    by (cases "latest_commands s n") (auto simp add: cycle_commands all_entered_def keys_def)
qed

section \<open>The claims\<close>

text \<open>
  C1, as the code has it. For every effort-controlled joint the torque snapshot reports
  the value of \<^verbatim>\<open>command_effort\<close> after the magnitude clamp, the ramp and the rate clamp,
  whatever its magnitude. Only the hardware write looks at the magnitude, and only when
  commands are applied: a value of magnitude 1000 or more is replaced by 0 in the call
  of \<^verbatim>\<open>setCommand\<close>, any other value is written as it is. Without the apply flag the
  handle is left alone.
\<close>

theorem sanity_override:
  assumes "i < length (effortJointHandles s)"
  shows "joint_position (lcm_torque_msg (locals (control_cycle hdr s time))) ! i
           = effort_value hdr (time - last_update s) (joint_limits s) (latest_commands s)
               (effortJointHandles s ! i)
       \<and> (applyCommands s \<longrightarrow>
            hw_command (snd (effortJointHandles (self (control_cycle hdr s time)) ! i))
              = (if 1000 \<le> \<bar>effort_value hdr (time - last_update s) (joint_limits s)
                                 (latest_commands s) (effortJointHandles s ! i)\<bar>
                 then 0
                 else effort_value hdr (time - last_update s) (joint_limits s)
                        (latest_commands s) (effortJointHandles s ! i)))
       \<and> (\<not> applyCommands s \<longrightarrow>
            effortJointHandles (self (control_cycle hdr s time)) ! i = effortJointHandles s ! i)"
  using assms
  by (simp add: cycle_torque cycle_effort_handles applied_effort_def setCommand_def)

theorem sanity_override_witness:
  "0 < length (effortJointHandles overloaded_joint) \<and> applyCommands overloaded_joint
   \<and> effort_value example_header (1 / 500 - last_update overloaded_joint)
        (joint_limits overloaded_joint) (latest_commands overloaded_joint)
        (effortJointHandles overloaded_joint ! 0) = 2000
   \<and> joint_position (lcm_torque_msg (locals (control_cycle example_header overloaded_joint (1 / 500)))) ! 0
        = 2000
   \<and> hw_command (snd (effortJointHandles
        (self (control_cycle example_header overloaded_joint (1 / 500))) ! 0)) = 0"
proof -
  have v: "effort_value example_header (1 / 500 - last_update overloaded_joint)
        (joint_limits overloaded_joint) (latest_commands overloaded_joint)
        (effortJointHandles overloaded_joint ! 0) = 2000"
    by (simp add: overloaded_joint_def stage_defs)
  have l: "0 < length (effortJointHandles overloaded_joint)" "applyCommands overloaded_joint"
    by (simp_all add: overloaded_joint_def)
  from sanity_override [OF l(1), of example_header "1 / 500"] v l show ?thesis
    by simp
qed

text \<open>
  C1 as stated fails: with a measured effort of 2000 and a feed-forward constant of 2000
  the clamped value is 2000; the hardware receives 0, the torque snapshot reports 2000.
\<close>

theorem sanity_override_counterexample:
  "applyCommands overloaded_joint
   \<and> joint_position (lcm_torque_msg (locals (control_cycle example_header overloaded_joint (1 / 500))))
        = [2000]
   \<and> map (hw_command \<circ> snd)
        (effortJointHandles (self (control_cycle example_header overloaded_joint (1 / 500)))) = [0]"
proof -
  let ?h = "\<lparr>hw_position = 0, hw_velocity = 0, hw_effort = 2000, hw_command = 7\<rparr>"
  have hs: "effortJointHandles overloaded_joint = [(''J1'', ?h)]"
    and a: "applyCommands overloaded_joint"
    by (simp_all add: overloaded_joint_def)
  have v: "effort_value example_header (1 / 500 - last_update overloaded_joint)
             (joint_limits overloaded_joint) (latest_commands overloaded_joint) (''J1'', ?h)
           = 2000"
    by (simp add: overloaded_joint_def stage_defs)
  show ?thesis
    by (simp add: cycle_torque cycle_effort_handles hs a v applied_effort_def setCommand_def)
qed

text \<open>
  The scenario of the specification: joint J1 with limits from -0.2 to 1.0 and a maximal
  effort of 50, measured at q = 0.5, qd = 0.1, f = 2.0, target position 0.6 with
  \<^verbatim>\<open>k_q_p\<close> = 100 and dt = 0.002. The commanded effort is 10.
\<close>

lemma scenario:
  "joint_position (lcm_torque_msg (locals (control_cycle example_header scenario_joint (1 / 500))))
        = [10]
   \<and> map (hw_command \<circ> snd)
        (effortJointHandles (self (control_cycle example_header scenario_joint (1 / 500)))) = [10]"
proof -
  let ?h = "\<lparr>hw_position = 1 / 2, hw_velocity = 1 / 10, hw_effort = 2, hw_command = 0\<rparr>"
  have hs: "effortJointHandles scenario_joint = [(''J1'', ?h)]"
    and a: "applyCommands scenario_joint"
    by (simp_all add: scenario_joint_def)
  have v: "effort_value example_header (1 / 500 - last_update scenario_joint)
             (joint_limits scenario_joint) (latest_commands scenario_joint) (''J1'', ?h)
           = 10"
    by (simp add: scenario_joint_def stage_defs)
  show ?thesis
    by (simp add: cycle_torque cycle_effort_handles hs a v applied_effort_def setCommand_def)
qed

text \<open>
  C2 at a failing input. A position-controlled joint has configured limits from -1 to 1
  and the target position 0.5. The loop over the position-controlled joints never copies
  the limits it found, so it clamps against a default-constructed \<^verbatim>\<open>JointLimits\<close>: it
  logs a violation and writes 0 to the hardware, where the claim has 0.5 written
  unchanged.
\<close>

theorem position_limits_ignored:
  "map (hw_command \<circ> snd)
     (positionJointHandles (self (control_cycle example_header limited_position_joint (1 / 500))))
     = [0]
   \<and> ros_log (locals (control_cycle example_header limited_position_joint (1 / 500)))
     = [PositionOutOfLimits ''P1'' (1 / 2)]"
  by (simp add: cycle_position_handles limited_position_joint_def stage_defs
        control_cycle_def init_locals_def position_joint_def Let_def)

text \<open>
  C3 at a failing input. With both publication flags set, a cycle hands no message to
  \<^verbatim>\<open>publish\<close>: neither the two gated snapshots nor the two the claim calls
  unconditional.
\<close>

theorem nothing_published:
  "published (control_cycle hdr
      (s\<lparr>publishCoreRobotState := True, publish_est_robot_state := True\<rparr>) time) = []"
  by (rule cycle_published)

text \<open>
  C4. Two cycles from the same controller state (the same sensor readings, command
  table, limits and time), one without and one with the apply flag, build the same four
  messages; the cycle without the flag calls \<^verbatim>\<open>setCommand\<close> for no joint and leaves every
  handle as it was.
\<close>

theorem dry_run_fidelity:
  "lcm_pose_msg (locals (control_cycle hdr (s\<lparr>applyCommands := False\<rparr>) time))
     = lcm_pose_msg (locals (control_cycle hdr (s\<lparr>applyCommands := True\<rparr>) time))
   \<and> lcm_commanded_msg (locals (control_cycle hdr (s\<lparr>applyCommands := False\<rparr>) time))
     = lcm_commanded_msg (locals (control_cycle hdr (s\<lparr>applyCommands := True\<rparr>) time))
   \<and> lcm_torque_msg (locals (control_cycle hdr (s\<lparr>applyCommands := False\<rparr>) time))
     = lcm_torque_msg (locals (control_cycle hdr (s\<lparr>applyCommands := True\<rparr>) time))
   \<and> lcm_state_msg (locals (control_cycle hdr (s\<lparr>applyCommands := False\<rparr>) time))
     = lcm_state_msg (locals (control_cycle hdr (s\<lparr>applyCommands := True\<rparr>) time))
   \<and> hw_writes (locals (control_cycle hdr (s\<lparr>applyCommands := False\<rparr>) time)) = []
   \<and> effortJointHandles (self (control_cycle hdr (s\<lparr>applyCommands := False\<rparr>) time))
     = effortJointHandles s
   \<and> positionJointHandles (self (control_cycle hdr (s\<lparr>applyCommands := False\<rparr>) time))
     = positionJointHandles s"
  using cycle_same [of hdr s time] by (simp add: same_messages_def cycle_dry)

text \<open>
  C5. For the effort-controlled joint at index \<open>i\<close> of a cycle, with \<open>q\<close>, \<open>qd\<close> and \<open>f\<close>
  the position, velocity and effort its handle reports, \<open>command\<close> its entry in the
  command table and \<open>dt\<close> the time since the last cycle, the effort before any clamp is
  the sum of the four feedback terms and the four feed-forward terms of the
  specification: it is the value the magnitude clamp receives, and the torque message
  holds what the magnitude clamp, the ramp and the rate clamp make of it.
\<close>

theorem raw_effort_formula:
  assumes "i < length (effortJointHandles s)"
    and "effortJointHandles s ! i = (name, h)"
    and "latest_commands s name = Some command"
    and "q = hw_position h" and "qd = hw_velocity h" and "f = hw_effort h"
    and "dt = time - last_update s"
    and "limits = effort_limits hdr (joint_limits s) name"
    and "raw = k_q_p command * (position command - q)
             + k_q_i command * (position command - q) * dt
             + k_qd_p command * (velocity command - qd)
             + k_f_p command * (effort command - f)
             + ff_qd command * qd + ff_qd_d command * velocity command
             + ff_f_d command * effort command + ff_const command"
  shows "command_effort_raw command q qd f dt = raw
       \<and> joint_position (lcm_torque_msg (locals (control_cycle hdr s time))) ! i
         = rate_clamp (FORCE_CONTROL_MAX_CHANGE hdr) f
             (ramp_by_err (FORCE_CONTROL_ALLOWABLE_POSITION_ERR_BOUND hdr)
                (max (q - max_position limits) (min_position limits - q))
                (clamp raw (- max_effort limits) (max_effort limits)))"
  using cycle_torque_nth [OF assms(1-3), of hdr time] assms(4-9)
  by (simp add: command_effort_raw_def err_beyond_bound_def)

theorem raw_effort_formula_witness:
  "0 < length (effortJointHandles busy_joint)
   \<and> effortJointHandles busy_joint ! 0
       = (''J1'', \<lparr>hw_position = 1 / 2, hw_velocity = 1 / 4, hw_effort = 12, hw_command = 0\<rparr>)
   \<and> latest_commands busy_joint ''J1''
       = Some \<lparr>position = 1, velocity = 2, effort = 3, k_q_p = 4, k_q_i = 5, k_qd_p = 6,
               k_f_p = 7, ff_qd = 8, ff_qd_d = 9, ff_f_d = 10, ff_const = 11\<rparr>
   \<and> command_effort_raw
        \<lparr>position = 1, velocity = 2, effort = 3, k_q_p = 4, k_q_i = 5, k_qd_p = 6,
         k_f_p = 7, ff_qd = 8, ff_qd_d = 9, ff_f_d = 10, ff_const = 11\<rparr>
        (1 / 2) (1 / 4) 12 (1 / 500) = 2101 / 200
   \<and> joint_position (lcm_torque_msg (locals (control_cycle example_header busy_joint (1 / 500)))) ! 0
       = 2101 / 200"
proof -
  let ?h = "\<lparr>hw_position = 1 / 2, hw_velocity = 1 / 4, hw_effort = 12, hw_command = 0\<rparr>"
  let ?c = "\<lparr>position = 1, velocity = 2, effort = 3, k_q_p = 4, k_q_i = 5, k_qd_p = 6,
               k_f_p = 7, ff_qd = 8, ff_qd_d = 9, ff_f_d = 10, ff_const = 11\<rparr>"
  have i: "0 < length (effortJointHandles busy_joint)"
    and h: "effortJointHandles busy_joint ! 0 = (''J1'', ?h)"
    and c: "latest_commands busy_joint ''J1'' = Some ?c"
    and l: "\<lparr>min_position = - 1, max_position = 1, max_effort = 1000\<rparr>
              = effort_limits example_header (joint_limits busy_joint) ''J1''"
    and d: "1 / 500 = 1 / 500 - last_update busy_joint"
    by (simp_all add: busy_joint_def effort_limits_def)
  have q: "1 / 2 = hw_position ?h" and qd: "1 / 4 = hw_velocity ?h" and f: "12 = hw_effort ?h"
    by simp_all
  have r: "2101 / 200 = k_q_p ?c * (position ?c - 1 / 2)
             + k_q_i ?c * (position ?c - 1 / 2) * (1 / 500)
             + k_qd_p ?c * (velocity ?c - 1 / 4)
             + k_f_p ?c * (effort ?c - 12)
             + ff_qd ?c * (1 / 4) + ff_qd_d ?c * velocity ?c
             + ff_f_d ?c * effort ?c + ff_const ?c"
    by simp
  from raw_effort_formula [OF i h c q qd f d l r] i h c
  show ?thesis
    by (simp add: example_header_def rate_clamp_def ramp_by_err_def clamp_def)
qed

text \<open>
  C6. The ramp, for a positive bound, with \<open>err\<close> the larger of \<open>q - max_position\<close> and
  \<open>min_position - q\<close> for the measured position \<open>q\<close> and the limits of the joint: a
  negative \<open>err\<close> leaves the value unchanged; for \<open>err\<close> from 0 up to the bound the value
  is multiplied by \<open>(bound - err) / bound\<close>, which leaves it unchanged at \<open>err = 0\<close>; from
  the bound on the result is 0. The first four parts say it of the stage, the last four
  of the cycle: the torque message holds the rate clamp of the magnitude-clamped effort
  so ramped.
\<close>

theorem ramp_stage:
  assumes "0 < FORCE_CONTROL_ALLOWABLE_POSITION_ERR_BOUND hdr"
    and "i < length (effortJointHandles s)"
    and "effortJointHandles s ! i = (name, h)"
    and "latest_commands s name = Some command"
    and "limits = effort_limits hdr (joint_limits s) name"
    and "err = max (hw_position h - max_position limits) (min_position limits - hw_position h)"
    and "clamped = clamp (command_effort_raw command (hw_position h) (hw_velocity h)
                            (hw_effort h) (time - last_update s))
                     (- max_effort limits) (max_effort limits)"
    and "out = joint_position (lcm_torque_msg (locals (control_cycle hdr s time))) ! i"
  shows "(err < 0 \<longrightarrow> ramp_by_err (FORCE_CONTROL_ALLOWABLE_POSITION_ERR_BOUND hdr) err v = v)
       \<and> (0 \<le> err \<and> err < FORCE_CONTROL_ALLOWABLE_POSITION_ERR_BOUND hdr \<longrightarrow>
            ramp_by_err (FORCE_CONTROL_ALLOWABLE_POSITION_ERR_BOUND hdr) err v
              = v * ((FORCE_CONTROL_ALLOWABLE_POSITION_ERR_BOUND hdr - err)
                       / FORCE_CONTROL_ALLOWABLE_POSITION_ERR_BOUND hdr))
       \<and> (err = 0 \<longrightarrow> ramp_by_err (FORCE_CONTROL_ALLOWABLE_POSITION_ERR_BOUND hdr) err v = v)
       \<and> (FORCE_CONTROL_ALLOWABLE_POSITION_ERR_BOUND hdr \<le> err \<longrightarrow>
            ramp_by_err (FORCE_CONTROL_ALLOWABLE_POSITION_ERR_BOUND hdr) err v = 0)
       \<and> (err < 0 \<longrightarrow> out = rate_clamp (FORCE_CONTROL_MAX_CHANGE hdr) (hw_effort h) clamped)
       \<and> (0 \<le> err \<and> err < FORCE_CONTROL_ALLOWABLE_POSITION_ERR_BOUND hdr \<longrightarrow>
            out = rate_clamp (FORCE_CONTROL_MAX_CHANGE hdr) (hw_effort h)
                    (clamped * ((FORCE_CONTROL_ALLOWABLE_POSITION_ERR_BOUND hdr - err)
                                  / FORCE_CONTROL_ALLOWABLE_POSITION_ERR_BOUND hdr)))
       \<and> (err = 0 \<longrightarrow> out = rate_clamp (FORCE_CONTROL_MAX_CHANGE hdr) (hw_effort h) clamped)
       \<and> (FORCE_CONTROL_ALLOWABLE_POSITION_ERR_BOUND hdr \<le> err \<longrightarrow>
            out = rate_clamp (FORCE_CONTROL_MAX_CHANGE hdr) (hw_effort h) 0)"
proof -
  have out: "out = rate_clamp (FORCE_CONTROL_MAX_CHANGE hdr) (hw_effort h)
                     (ramp_by_err (FORCE_CONTROL_ALLOWABLE_POSITION_ERR_BOUND hdr) err clamped)"
    using cycle_torque_nth [OF assms(2-4), of hdr time] assms(5-8)
    by (simp add: err_beyond_bound_def)
  show ?thesis
    unfolding out using assms(1) by (simp add: ramp_by_err_def)
qed

theorem ramp_stage_witness:
  "0 < FORCE_CONTROL_ALLOWABLE_POSITION_ERR_BOUND example_header
   \<and> joint_position (lcm_torque_msg (locals
        (control_cycle example_header (ramp_joint (1 / 2)) (1 / 500)))) ! 0 = 8
   \<and> joint_position (lcm_torque_msg (locals
        (control_cycle example_header (ramp_joint 1) (1 / 500)))) ! 0 = 8
   \<and> joint_position (lcm_torque_msg (locals
        (control_cycle example_header (ramp_joint (21 / 20)) (1 / 500)))) ! 0 = 4
   \<and> joint_position (lcm_torque_msg (locals
        (control_cycle example_header (ramp_joint (- 1 / 4)) (1 / 500)))) ! 0 = 4
   \<and> joint_position (lcm_torque_msg (locals
        (control_cycle example_header (ramp_joint (11 / 10)) (1 / 500)))) ! 0 = 0
   \<and> joint_position (lcm_torque_msg (locals
        (control_cycle example_header (ramp_joint (- 3 / 10)) (1 / 500)))) ! 0 = 0
   \<and> ramp_by_err (1 / 10) (1 / 20) 8 = 4"
proof -
  let ?out = "\<lambda>q. joint_position (lcm_torque_msg (locals
        (control_cycle example_header (ramp_joint q) (1 / 500)))) ! 0"
  let ?L = "\<lparr>min_position = - 1 / 5, max_position = 1, max_effort = 50\<rparr>"
  have b: "0 < FORCE_CONTROL_ALLOWABLE_POSITION_ERR_BOUND example_header"
    by (simp add: example_header_def)
  have pt: "(err < 0 \<longrightarrow> ramp_by_err (1 / 10) err 8 = 8)
          \<and> (0 \<le> err \<and> err < 1 / 10 \<longrightarrow> ramp_by_err (1 / 10) err 8 = 8 * ((1 / 10 - err) / (1 / 10)))
          \<and> (err < 0 \<longrightarrow> ?out q = rate_clamp 20 0 8)
          \<and> (0 \<le> err \<and> err < 1 / 10 \<longrightarrow> ?out q = rate_clamp 20 0 (8 * ((1 / 10 - err) / (1 / 10))))
          \<and> (err = 0 \<longrightarrow> ?out q = rate_clamp 20 0 8)
          \<and> (1 / 10 \<le> err \<longrightarrow> ?out q = rate_clamp 20 0 0)"
    if "err = max (q - 1) (- 1 / 5 - q)" for q err
  proof -
    let ?h = "\<lparr>hw_position = q, hw_velocity = 0, hw_effort = 0, hw_command = 0\<rparr>"
    have i: "0 < length (effortJointHandles (ramp_joint q))"
      and h: "effortJointHandles (ramp_joint q) ! 0 = (''J1'', ?h)"
      and c: "latest_commands (ramp_joint q) ''J1'' = Some (zero_command\<lparr>ff_const := 8\<rparr>)"
      and l: "?L = effort_limits example_header (joint_limits (ramp_joint q)) ''J1''"
      by (simp_all add: ramp_joint_def effort_limits_def)
    have e: "err = max (hw_position ?h - max_position ?L) (min_position ?L - hw_position ?h)"
      using that by simp
    have cl: "8 = clamp (command_effort_raw (zero_command\<lparr>ff_const := 8\<rparr>) (hw_position ?h)
                           (hw_velocity ?h) (hw_effort ?h) (1 / 500 - last_update (ramp_joint q)))
                    (- max_effort ?L) (max_effort ?L)"
      by (simp add: clamp_def command_effort_raw_def zero_command_def)
    from ramp_stage [OF b i h c l e cl refl, of 8]
    show ?thesis by (simp add: example_header_def)
  qed
  have "?out (1 / 2) = 8" using pt [of "- 1 / 2" "1 / 2"] by (simp add: rate_clamp_def)
  moreover have "?out 1 = 8" using pt [of 0 1] by (simp add: rate_clamp_def)
  moreover have "?out (21 / 20) = 4" using pt [of "1 / 20" "21 / 20"] by (simp add: rate_clamp_def)
  moreover have "?out (- 1 / 4) = 4" using pt [of "1 / 20" "- 1 / 4"] by (simp add: rate_clamp_def)
  moreover have "?out (11 / 10) = 0" using pt [of "1 / 10" "11 / 10"] by (simp add: rate_clamp_def)
  moreover have "?out (- 3 / 10) = 0" using pt [of "1 / 10" "- 3 / 10"] by (simp add: rate_clamp_def)
  moreover have "ramp_by_err (1 / 10) (1 / 20) 8 = 4" using pt [of "1 / 20" "21 / 20"] by simp
  ultimately show ?thesis using b by simp
qed

text \<open>
  C7. The rate clamp, for a maximal change that is not negative: a value above
  \<open>f + max_change\<close> becomes \<open>f + max_change\<close>, a value below \<open>f - max_change\<close> becomes
  \<open>f - max_change\<close>, a value between the two is kept, and applying the stage twice is
  applying it once.
\<close>

theorem rate_clamp_stage:
  assumes "0 \<le> max_change"
  shows "(v > f + max_change \<longrightarrow> rate_clamp max_change f v = f + max_change)
       \<and> (v < f - max_change \<longrightarrow> rate_clamp max_change f v = f - max_change)
       \<and> (f - max_change \<le> v \<and> v \<le> f + max_change \<longrightarrow> rate_clamp max_change f v = v)
       \<and> rate_clamp max_change f (rate_clamp max_change f v) = rate_clamp max_change f v"
  using assms by (auto simp add: rate_clamp_def min_def max_def)

theorem rate_clamp_stage_witness:
  "(0::real) \<le> 20
   \<and> rate_clamp 20 2 30 = 22
   \<and> rate_clamp 20 2 (- 30) = - 18
   \<and> rate_clamp 20 2 10 = 10
   \<and> rate_clamp 20 2 (rate_clamp 20 2 30) = rate_clamp 20 2 30"
proof -
  have m: "(0::real) \<le> 20" by simp
  from rate_clamp_stage [OF m, of 2 30] rate_clamp_stage [OF m, of 2 "- 30"]
    rate_clamp_stage [OF m, of 2 10]
  show ?thesis by (simp add: rate_clamp_def)
qed

text \<open>
  C8. On a batch as the decoder delivers it the handler returns a table and raises no
  fault. The table has the keys it had before, so a name that is absent creates no
  entry. An entry whose name the batch does not mention is unchanged. An entry whose
  name the batch mentions holds, in each of its eleven fields, the value the batch gives
  for that field at the last index with that name.
\<close>

theorem unknown_joint_isolation:
  assumes "decoded msg"
  shows "\<exists>cmds'. jointCommandHandler msg cmds = Inr cmds'
           \<and> dom cmds' = dom cmds
           \<and> (\<forall>n. n \<notin> set (msg_joint_names msg) \<longrightarrow> cmds' n = cmds n)
           \<and> (\<forall>i. i < length (msg_joint_names msg)
                 \<and> msg_joint_names msg ! i \<in> dom cmds
                 \<and> (\<forall>j. i < j \<and> j < length (msg_joint_names msg)
                        \<longrightarrow> msg_joint_names msg ! j \<noteq> msg_joint_names msg ! i)
                 \<longrightarrow> cmds' (msg_joint_names msg ! i)
                       = Some \<lparr>position = msg_position msg ! i,
                               velocity = msg_velocity msg ! i,
                               effort = msg_effort msg ! i,
                               k_q_p = msg_k_q_p msg ! i,
                               k_q_i = msg_k_q_i msg ! i,
                               k_qd_p = msg_k_qd_p msg ! i,
                               k_f_p = msg_k_f_p msg ! i,
                               ff_qd = msg_ff_qd msg ! i,
                               ff_qd_d = msg_ff_qd_d msg ! i,
                               ff_f_d = msg_ff_f_d msg ! i,
                               ff_const = msg_ff_const msg ! i\<rparr>)"
proof -
  let ?N = "length (msg_joint_names msg)"
  let ?r = "foldl (apply_at msg) cmds [0..<?N]"
  have run: "jointCommandHandler msg cmds = Inr ?r"
    using assms by (simp add: jointCommandHandler_def loop_bound_decoded handler_loop_decoded)
  have unknown: "\<forall>n. n \<notin> set (msg_joint_names msg) \<longrightarrow> ?r n = cmds n"
  proof (intro allI impI)
    fix n assume "n \<notin> set (msg_joint_names msg)"
    then have "\<forall>i\<in>set [0..<?N]. msg_joint_names msg ! i \<noteq> n" by auto
    then show "?r n = cmds n" by (rule foldl_apply_at_other)
  qed
  have known: "\<forall>i. i < ?N \<and> msg_joint_names msg ! i \<in> dom cmds
                 \<and> (\<forall>j. i < j \<and> j < ?N \<longrightarrow> msg_joint_names msg ! j \<noteq> msg_joint_names msg ! i)
                 \<longrightarrow> ?r (msg_joint_names msg ! i) = Some (command_at msg i)"
    by (intro allI impI foldl_apply_at_last) simp_all
  from run unknown known show ?thesis
    by (simp add: dom_foldl_apply_at command_at_def)
qed

theorem unknown_joint_isolation_witness:
  "decoded mixed_batch
   \<and> (\<exists>cmds'. jointCommandHandler mixed_batch two_joint_table = Inr cmds'
         \<and> dom cmds' = dom two_joint_table
         \<and> cmds' ''ghost'' = None
         \<and> cmds' ''J2'' = two_joint_table ''J2''
         \<and> cmds' ''J1''
             = Some \<lparr>position = 1, velocity = 2, effort = 3, k_q_p = 4, k_q_i = 5, k_qd_p = 6,
                     k_f_p = 7, ff_qd = 8, ff_qd_d = 9, ff_f_d = 10, ff_const = 11\<rparr>)"
proof -
  have d: "decoded mixed_batch"
    by (simp add: decoded_def mixed_batch_def)
  from unknown_joint_isolation [OF d, of two_joint_table]
  obtain cmds' where r: "jointCommandHandler mixed_batch two_joint_table = Inr cmds'"
    and dm: "dom cmds' = dom two_joint_table"
    and un: "\<forall>n. n \<notin> set (msg_joint_names mixed_batch) \<longrightarrow> cmds' n = two_joint_table n"
    and kn: "\<forall>i. i < length (msg_joint_names mixed_batch)
                 \<and> msg_joint_names mixed_batch ! i \<in> dom two_joint_table
                 \<and> (\<forall>j. i < j \<and> j < length (msg_joint_names mixed_batch)
                        \<longrightarrow> msg_joint_names mixed_batch ! j \<noteq> msg_joint_names mixed_batch ! i)
                 \<longrightarrow> cmds' (msg_joint_names mixed_batch ! i)
                       = Some \<lparr>position = msg_position mixed_batch ! i,
                               velocity = msg_velocity mixed_batch ! i,
                               effort = msg_effort mixed_batch ! i,
                               k_q_p = msg_k_q_p mixed_batch ! i,
                               k_q_i = msg_k_q_i mixed_batch ! i,
                               k_qd_p = msg_k_qd_p mixed_batch ! i,
                               k_f_p = msg_k_f_p mixed_batch ! i,
                               ff_qd = msg_ff_qd mixed_batch ! i,
                               ff_qd_d = msg_ff_qd_d mixed_batch ! i,
                               ff_f_d = msg_ff_f_d mixed_batch ! i,
                               ff_const = msg_ff_const mixed_batch ! i\<rparr>"
    by blast
  have j2: "cmds' ''J2'' = two_joint_table ''J2''"
    using un by (simp add: mixed_batch_def)
  have "''ghost'' \<notin> dom two_joint_table"
    by (simp add: two_joint_table_def)
  with dm have ghost: "cmds' ''ghost'' = None"
    by blast
  have j1: "cmds' ''J1''
             = Some \<lparr>position = 1, velocity = 2, effort = 3, k_q_p = 4, k_q_i = 5, k_qd_p = 6,
                     k_f_p = 7, ff_qd = 8, ff_qd_d = 9, ff_f_d = 10, ff_const = 11\<rparr>"
    using kn [rule_format, of 1] by (simp add: mixed_batch_def two_joint_table_def)
  from d r dm j2 ghost j1 show ?thesis by simp
qed

text \<open>
  C9. For a controller that \<^verbatim>\<open>initRequest\<close> has initialised on interfaces that list their
  names in ascending order: the pose, commanded and state messages of a cycle name the
  effort-controlled joints first, in the order in which they were registered, and then
  the position-controlled joints, in the order in which they were registered; the
  torque message names the effort-controlled joints, in that order. A later cycle,
  whatever the command table holds by then, uses the same order.
\<close>

theorem snapshot_order:
  assumes "initRequest constructed robot_hw controller_nh lcm_good = (True, s)"
    and "EffortJointInterface robot_hw = Some effort_hw"
    and "PositionJointInterface robot_hw = Some position_hw"
    and "sorted_wrt (<) (getNames effort_hw)"
    and "sorted_wrt (<) (getNames position_hw)"
    and "E = registered_names (length (selected_joints controller_nh) \<noteq> 0)
               (selected_joints controller_nh) effort_hw"
    and "P = registered_names (length (selected_joints controller_nh) \<noteq> 0)
               (selected_joints controller_nh) position_hw"
  shows "snapshot_names (control_cycle hdr s time) = (E @ P, E @ P, E, E @ P)
       \<and> snapshot_names
            (control_cycle hdr ((self (control_cycle hdr s time))\<lparr>latest_commands := cmds\<rparr>) time')
         = (E @ P, E @ P, E, E @ P)"
  using initRequest_order [OF assms(1-5)] cycle_keys [of hdr s time] assms(6,7)
  by (simp add: cycle_snapshot_names)

theorem snapshot_order_witness:
  "initRequest constructed three_joint_hw no_parameters True = (True, three_joint_controller)
   \<and> map_option getNames (EffortJointInterface three_joint_hw) = Some [''b'', ''c'']
   \<and> map_option getNames (PositionJointInterface three_joint_hw) = Some [''a'']
   \<and> snapshot_names (control_cycle example_header three_joint_controller 1)
     = ([''b'', ''c'', ''a''], [''b'', ''c'', ''a''], [''b'', ''c''], [''b'', ''c'', ''a''])
   \<and> snapshot_names
        (control_cycle example_header
           ((self (control_cycle example_header three_joint_controller 1))
              \<lparr>latest_commands := Map.empty\<rparr>) 2)
     = ([''b'', ''c'', ''a''], [''b'', ''c'', ''a''], [''b'', ''c''], [''b'', ''c'', ''a''])"
proof -
  let ?e = "\<lparr>getNames = [''b'', ''c''],
              getHandle =
                [''b'' \<mapsto> \<lparr>hw_position = 0, hw_velocity = 0, hw_effort = 0, hw_command = 0\<rparr>,
                 ''c'' \<mapsto> \<lparr>hw_position = 1, hw_velocity = 0, hw_effort = 0, hw_command = 0\<rparr>]\<rparr>"
  let ?p = "\<lparr>getNames = [''a''],
              getHandle =
                [''a'' \<mapsto> \<lparr>hw_position = 2, hw_velocity = 0, hw_effort = 0, hw_command = 0\<rparr>]\<rparr>"
  have e: "EffortJointInterface three_joint_hw = Some ?e"
    and p: "PositionJointInterface three_joint_hw = Some ?p"
    by (simp_all add: three_joint_hw_def)
  have se: "sorted_wrt (<) (getNames ?e)" and sp: "sorted_wrt (<) (getNames ?p)"
    by simp_all
  have E: "[''b'', ''c''] = registered_names (length (selected_joints no_parameters) \<noteq> 0)
               (selected_joints no_parameters) ?e"
    and P: "[''a''] = registered_names (length (selected_joints no_parameters) \<noteq> 0)
               (selected_joints no_parameters) ?p"
    by (simp_all add: registered_names_def selected_joints_def no_parameters_def)
  from snapshot_order [OF three_joint_controller_eq e p se sp E P, of example_header 1 Map.empty 2]
    three_joint_controller_eq e p
  show ?thesis by simp
qed

text \<open>
  C10. The loops of a cycle read the command table through \<^verbatim>\<open>latest_commands[name]\<close>.
  Every entry of the table is the same after the cycle as before it. When every joint
  with a handle has an entry, which is how \<^verbatim>\<open>initRequest\<close> leaves the controller, the
  whole table is the same after the cycle, and every joint with a handle still has an
  entry. A call of \<^verbatim>\<open>update\<close> with no pending message is such a cycle.
\<close>

theorem cycle_keeps_commands:
  "(\<forall>n c. latest_commands s n = Some c
        \<longrightarrow> latest_commands (self (control_cycle hdr s time)) n = Some c)
   \<and> (all_entered s \<longrightarrow>
        latest_commands (self (control_cycle hdr s time)) = latest_commands s
        \<and> all_entered (self (control_cycle hdr s time)))
   \<and> (initRequest constructed robot_hw controller_nh lcm_good = (True, s) \<longrightarrow> all_entered s)
   \<and> update hdr s time None = Inr (control_cycle hdr s time)"
proof (intro conjI allI impI)
  fix n c assume "latest_commands s n = Some c"
  then show "latest_commands (self (control_cycle hdr s time)) n = Some c"
    by (simp add: cycle_commands)
next
  assume "all_entered s"
  then show "latest_commands (self (control_cycle hdr s time)) = latest_commands s"
    by (rule cycle_entered)
next
  assume a: "all_entered s"
  from a cycle_entered [OF a, of hdr time] cycle_keys [of hdr s time]
  show "all_entered (self (control_cycle hdr s time))"
    by (simp add: all_entered_def)
next
  assume "initRequest constructed robot_hw controller_nh lcm_good = (True, s)"
  then show "all_entered s" by (simp add: initRequest_sorted)
next
  show "update hdr s time None = Inr (control_cycle hdr s time)"
    by (simp add: update_def)
qed

theorem cycle_keeps_commands_witness:
  "initRequest constructed two_joint_hw no_parameters True = (True, two_joint_controller)
   \<and> all_entered two_joint_controller
   \<and> latest_commands two_joint_controller ''a'' = Some zero_command
   \<and> latest_commands (self (control_cycle example_header two_joint_controller 1)) ''a''
      = Some zero_command
   \<and> latest_commands (self (control_cycle example_header two_joint_controller 1))
      = latest_commands two_joint_controller"
proof -
  have e: "latest_commands two_joint_controller ''a'' = Some zero_command"
    unfolding two_joint_controller_def two_joint_init by simp
  from cycle_keeps_commands [of two_joint_controller example_header 1 two_joint_hw
      no_parameters True] two_joint_controller_eq e
  show ?thesis by simp
qed

end
